theory Spec2Isabelle
  imports Main "HOL-Library.AList"
begin

section \<open>Python values, exceptions and string operations\<close>

text \<open>
  Exceptions of the source become values.  \<open>NotFoundException\<close> and
  \<open>ForbiddenException\<close> are subclasses of \<open>ApiException\<close> in the vendor client;
  each carries the \<open>errors\<close> list of the response body.  \<open>OtherError\<close> stands for
  any further subclass of \<open>Exception\<close> that a library call may raise
  (for example \<open>OverflowError\<close> or \<open>OSError\<close> from \<open>datetime.fromtimestamp\<close>).
\<close>

datatype error =
    ValueError
  | TypeError
  | AttributeError
  | OtherError string
  | NotFoundException "string list"
  | ForbiddenException "string list"
  | ApiException "string list"

text \<open>
  A webhook payload is a JSON document parsed by the host: a Python \<open>dict\<close> whose values
  are \<open>None\<close>, booleans, integers, strings, lists and dicts.  A dict is an association list in
  insertion order, updated with \<open>AList.update\<close> (overwrite in place, else append), as a
  Python dict behaves.  JSON numbers with a fractional part are not represented.
\<close>

datatype json =
    JNull
  | JBool bool
  | JInt int
  | JStr string
  | JList "json list"
  | JObj "(string \<times> json) list"

type_synonym 'v dict = "(string \<times> 'v) list"

text \<open>\<open>d.get(k)\<close> and \<open>d.get(k, default)\<close>.\<close>

definition dict_get :: "'v dict \<Rightarrow> string \<Rightarrow> 'v option" where
  "dict_get d k = map_of d k"

definition dict_get_default :: "'v dict \<Rightarrow> string \<Rightarrow> 'v \<Rightarrow> 'v" where
  "dict_get_default d k dflt = (case map_of d k of None \<Rightarrow> dflt | Some v \<Rightarrow> v)"

text \<open>Python truthiness, as used by \<open>if not groups\<close>.\<close>

fun truthy :: "json \<Rightarrow> bool" where
  "truthy JNull = False"
| "truthy (JBool b) = b"
| "truthy (JInt n) = (n \<noteq> 0)"
| "truthy (JStr s) = (s \<noteq> [])"
| "truthy (JList xs) = (xs \<noteq> [])"
| "truthy (JObj kvs) = (kvs \<noteq> [])"

text \<open>
  \<open>s.split(c)\<close> with a one-character separator: every occurrence of \<open>c\<close> separates two
  parts, so the result is never empty and consecutive separators give empty parts.
\<close>

fun py_split :: "char \<Rightarrow> string \<Rightarrow> string list" where
  "py_split c [] = [[]]"
| "py_split c (x # xs) =
     (if x = c then [] # py_split c xs
      else (case py_split c xs of
              [] \<Rightarrow> [[x]]
            | w # ws \<Rightarrow> (x # w) # ws))"

text \<open>\<open>s.split(c, n)\<close>: at most \<open>n\<close> splits, leftmost first; the rest stays whole.\<close>

fun py_splitn :: "char \<Rightarrow> nat \<Rightarrow> string \<Rightarrow> string list" where
  "py_splitn c 0 s = [s]"
| "py_splitn c (Suc n) [] = [[]]"
| "py_splitn c (Suc n) (x # xs) =
     (if x = c then [] # py_splitn c n xs
      else (case py_splitn c (Suc n) xs of
              [] \<Rightarrow> [[x]]
            | w # ws \<Rightarrow> (x # w) # ws))"

text \<open>\<open>s.lstrip(c)\<close> and \<open>s.rstrip(c)\<close> remove every leading (trailing) \<open>c\<close>.\<close>

definition lstrip :: "char \<Rightarrow> string \<Rightarrow> string" where
  "lstrip c s = dropWhile (\<lambda>x. x = c) s"

definition rstrip :: "char \<Rightarrow> string \<Rightarrow> string" where
  "rstrip c s = rev (dropWhile (\<lambda>x. x = c) (rev s))"

text \<open>\<open>sub in s\<close> for strings.\<close>

fun str_contains :: "string \<Rightarrow> string \<Rightarrow> bool" where
  "str_contains sub [] = (sub = [])"
| "str_contains sub (x # xs) = (take (length sub) (x # xs) = sub \<or> str_contains sub xs)"

text \<open>\<open>xs.remove(v)\<close>: drops the first occurrence, \<open>ValueError\<close> when there is none.\<close>

fun list_remove :: "'a \<Rightarrow> 'a list \<Rightarrow> error + 'a list" where
  "list_remove v [] = Inl ValueError"
| "list_remove v (x # xs) =
     (if x = v then Inr xs
      else (case list_remove v xs of Inl e \<Rightarrow> Inl e | Inr ys \<Rightarrow> Inr (x # ys)))"

text \<open>
  \<open>{k: v for k, v in parts}\<close>: each element is unpacked into exactly two names
  (\<open>ValueError\<close> otherwise) and stored; a later key overwrites an earlier one.
\<close>

fun dict_comprehension :: "string list list \<Rightarrow> string dict \<Rightarrow> error + string dict" where
  "dict_comprehension [] acc = Inr acc"
| "dict_comprehension (p # ps) acc =
     (case p of
        [k, v] \<Rightarrow> dict_comprehension ps (AList.update k v acc)
      | _ \<Rightarrow> Inl ValueError)"

section \<open>Severity mapping\<close>

text \<open>
  \<open>DatadogProvider.__get_parsed_severity\<close> (lines 441-450).  The argument is compared with
  four string literals; a value of any other type or spelling falls off the end of the
  function, which returns \<open>None\<close>.
\<close>

definition get_parsed_severity :: "json \<Rightarrow> string option" where
  "get_parsed_severity priority =
     (if priority = JStr ''P1'' then Some ''critical''
      else if priority = JStr ''P2'' then Some ''high''
      else if priority = JStr ''P3'' then Some ''medium''
      else if priority = JStr ''P4'' then Some ''low''
      else None)"

section \<open>The canonical alert and its fingerprint\<close>

text \<open>
  Modelled from the spec: \<open>AlertDto\<close> (\<open>keep.api.models.alert\<close>), the Canonical Alert of
  section 3 of the specification.  It is a record of the keyword arguments the two
  normalisation paths pass; constructing it stores the values as given.  \<open>fingerprint\<close>,
  \<open>created_by\<close> and \<open>url\<close> are \<open>None\<close> unless set.
\<close>

record alert =
  alert_id :: json
  name :: string
  status :: string
  lastReceived :: string
  severity :: "string option"
  message :: json
  monitor_id :: json
  groups :: "string list option"
  source :: "string list"
  tags :: "string dict"
  created_by :: "string option"
  url :: json
  fingerprint :: "string option"

definition FINGERPRINT_FIELDS :: "string list" where
  "FINGERPRINT_FIELDS = [''groups'', ''monitor_id'']"

text \<open>The value of a field of the DTO selected by its name, \<open>None\<close> for an unknown name.\<close>

definition json_of_str_opt :: "string option \<Rightarrow> json" where
  "json_of_str_opt s = (case s of None \<Rightarrow> JNull | Some x \<Rightarrow> JStr x)"

definition json_of_strs :: "string list \<Rightarrow> json" where
  "json_of_strs xs = JList (map JStr xs)"

definition alert_field :: "alert \<Rightarrow> string \<Rightarrow> json option" where
  "alert_field a f =
     (if f = ''id'' then Some (alert_id a)
      else if f = ''name'' then Some (JStr (name a))
      else if f = ''status'' then Some (JStr (status a))
      else if f = ''lastReceived'' then Some (JStr (lastReceived a))
      else if f = ''severity'' then Some (json_of_str_opt (severity a))
      else if f = ''message'' then Some (message a)
      else if f = ''monitor_id'' then Some (monitor_id a)
      else if f = ''groups'' then
        Some (case groups a of None \<Rightarrow> JNull | Some gs \<Rightarrow> json_of_strs gs)
      else if f = ''source'' then Some (json_of_strs (source a))
      else if f = ''tags'' then Some (JObj (map (\<lambda>(k, v). (k, JStr v)) (tags a)))
      else if f = ''created_by'' then Some (json_of_str_opt (created_by a))
      else if f = ''url'' then Some (url a)
      else if f = ''fingerprint'' then Some (json_of_str_opt (fingerprint a))
      else None)"

text \<open>
  Modelled from the spec: \<open>BaseProvider.get_alert_fingerprint\<close>, which is not part of
  this file.  Section 4.2: given an alert and an ordered field list, the fingerprint
  combines the values of exactly those fields in that order; the combination rule is the
  host platform's and is a black box, here the parameter \<open>combine\<close>.
\<close>

definition get_alert_fingerprint ::
  "(json option list \<Rightarrow> string) \<Rightarrow> alert \<Rightarrow> string list \<Rightarrow> string" where
  "get_alert_fingerprint combine a fingerprint_fields =
     combine (map (alert_field a) fingerprint_fields)"

section \<open>Library calls taken as parameters\<close>

text \<open>
  The conversions of the standard library that depend on the local time zone or parse
  text are parameters of the model:
  \<^item> \<open>fromtimestamp_isoformat t\<close> is \<open>datetime.fromtimestamp(t).isoformat()\<close>, an error when
    \<open>fromtimestamp\<close> raises;
  \<^item> \<open>int_of_str s\<close> is \<open>int(s)\<close> for a string, \<open>None\<close> when it raises \<open>ValueError\<close>;
  \<^item> \<open>fromtimestamp_ms_str n\<close> is \<open>str(datetime.fromtimestamp(n / 1000))\<close>, an error when
    \<open>fromtimestamp\<close> raises.
\<close>

record env =
  fromtimestamp_isoformat :: "int \<Rightarrow> error + string"
  int_of_str :: "string \<Rightarrow> int option"
  fromtimestamp_ms_str :: "int \<Rightarrow> error + string"

text \<open>\<open>int(x)\<close> on the value of \<open>event.get(key)\<close>.\<close>

fun py_int :: "env \<Rightarrow> json option \<Rightarrow> error + int" where
  "py_int E None = Inl TypeError"
| "py_int E (Some JNull) = Inl TypeError"
| "py_int E (Some (JBool b)) = Inr (if b then 1 else 0)"
| "py_int E (Some (JInt n)) = Inr n"
| "py_int E (Some (JStr s)) =
     (case int_of_str E s of None \<Rightarrow> Inl ValueError | Some n \<Rightarrow> Inr n)"
| "py_int E (Some (JList xs)) = Inl TypeError"
| "py_int E (Some (JObj kvs)) = Inl TypeError"

section \<open>The polled path: \<open>_get_alerts\<close>\<close>

text \<open>
  The vendor client's objects, with the attributes the source reads.  An attribute the
  vendor may leave null is an option.  The objects themselves are truthy (the client's
  model classes define neither \<open>__bool__\<close> nor \<open>__len__\<close>).
\<close>

record creator =
  email :: "string option"

record downtime =
  downtime_groups :: "string list option"
  downtime_scope :: "string list option"

record monitor =
  mon_id :: int
  mon_name :: string
  mon_message :: "string option"
  mon_creator :: "creator option"
  matching_downtimes :: "downtime list"

record event =
  event_id :: int
  event_title :: string
  event_text :: string
  event_tags :: "string list"
  event_date_happened :: "int option"
  event_monitor_id :: "int option"
  event_monitor_groups :: "string list option"

text \<open>What \<open>logger.exception\<close> receives in the handler: the message and the \<open>extra\<close> dict.\<close>

record log_entry =
  log_message :: string
  log_event_id :: int
  log_monitor_id :: "int option"

text \<open>
  Lines 458-461: \<open>{monitor.id: monitor for monitor in ...}\<close>, a later monitor with the
  same id replacing an earlier one; and \<open>all_monitors.get(event.monitor_id)\<close>, line 489.
\<close>

definition all_monitors_of :: "monitor list \<Rightarrow> (int \<rightharpoonup> monitor)" where
  "all_monitors_of ms = fold (\<lambda>m d. d(mon_id m \<mapsto> m)) ms Map.empty"

definition monitors_get :: "(int \<rightharpoonup> monitor) \<Rightarrow> int option \<Rightarrow> monitor option" where
  "monitors_get all_monitors k = (case k of None \<Rightarrow> None | Some i \<Rightarrow> all_monitors i)"

text \<open>Lines 474-480: the tags that contain a colon, each split at its first colon.\<close>

definition polled_tags :: "string list \<Rightarrow> error + string dict" where
  "polled_tags ts =
     dict_comprehension
       (map (py_splitn CHR '':'' 1) (filter (\<lambda>tag. CHR '':'' \<in> set tag) ts)) []"

text \<open>
  Lines 490-497.  \<open>monitor.matching_downtimes\<close> is read without a check of \<open>monitor\<close>: on
  \<open>None\<close> the attribute access raises \<open>AttributeError\<close>.  \<open>any\<close> of a list of (truthy)
  downtime objects holds when the list is not empty.
\<close>

definition downtime_matches :: "event \<Rightarrow> downtime \<Rightarrow> bool" where
  "downtime_matches ev d =
     (downtime_groups d = event_monitor_groups ev \<or> downtime_scope d = Some [''*''])"

definition is_muted :: "monitor option \<Rightarrow> event \<Rightarrow> error + bool" where
  "is_muted monitor ev =
     (case monitor of
        None \<Rightarrow> Inl AttributeError
      | Some m \<Rightarrow> Inr (filter (downtime_matches ev) (matching_downtimes m) \<noteq> []))"

text \<open>Lines 510-512: \<open>monitor.creator.email if monitor and monitor.creator else None\<close>.\<close>

definition created_by_of :: "monitor option \<Rightarrow> string option" where
  "created_by_of monitor =
     (case monitor of
        None \<Rightarrow> None
      | Some m \<Rightarrow> (case mon_creator m of None \<Rightarrow> None | Some c \<Rightarrow> email c))"

text \<open>\<open>datetime.datetime.fromtimestamp(event.get("date_happened"))\<close>, lines 486-488.\<close>

definition polled_received :: "env \<Rightarrow> event \<Rightarrow> error + string" where
  "polled_received E ev =
     (case event_date_happened ev of
        None \<Rightarrow> Inl TypeError
      | Some t \<Rightarrow> fromtimestamp_isoformat E t)"

text \<open>
  The body of the \<open>try\<close> statement, lines 474-517, for one event: the alert that is
  appended, or the exception that leaves the block.  \<open>fingerprint_fields\<close> is the
  instance attribute \<open>self.fingerprint_fields\<close>, which the base class sets.
\<close>

definition get_alerts_try ::
  "env \<Rightarrow> (json option list \<Rightarrow> string) \<Rightarrow> string list \<Rightarrow> (int \<rightharpoonup> monitor) \<Rightarrow> event
     \<Rightarrow> error + alert" where
  "get_alerts_try E combine fingerprint_fields all_monitors ev =
     (case polled_tags (event_tags ev) of
        Inl e \<Rightarrow> Inl e
      | Inr tgs \<Rightarrow>
     (case py_splitn CHR '' '' 2 (event_title ev) of
        [severity0, status0, title] \<Rightarrow>
          (let sev = get_parsed_severity
                       (JStr (rstrip CHR '']'' (lstrip CHR ''['' severity0)));
               stat = rstrip CHR '']'' (lstrip CHR ''['' status0)
           in
           (case polled_received E ev of
              Inl e \<Rightarrow> Inl e
            | Inr received \<Rightarrow>
           (let monitor = monitors_get all_monitors (event_monitor_id ev) in
            (case is_muted monitor ev of
               Inl e \<Rightarrow> Inl e
             | Inr muted \<Rightarrow>
            (let a = \<lparr> alert_id = JInt (event_id ev),
                       name = title,
                       status = (if \<not> muted then stat else ''Muted''),
                       lastReceived = received,
                       severity = sev,
                       message = JStr (event_text ev),
                       monitor_id = (case event_monitor_id ev of
                                       None \<Rightarrow> JNull | Some i \<Rightarrow> JInt i),
                       groups = event_monitor_groups ev,
                       source = [''datadog''],
                       tags = tgs,
                       created_by = created_by_of monitor,
                       url = JNull,
                       fingerprint = None \<rparr>
             in Inr (a\<lparr> fingerprint :=
                         Some (get_alert_fingerprint combine a fingerprint_fields) \<rparr>))))))
      | _ \<Rightarrow> Inl ValueError))"

text \<open>
  The \<open>for\<close> loop of lines 472-523 with its two accumulators: the list of alerts and the
  log.  An exception of the body is caught, logged with the event's id and monitor id,
  and the loop continues.
\<close>

fun get_alerts_loop ::
  "env \<Rightarrow> (json option list \<Rightarrow> string) \<Rightarrow> string list \<Rightarrow> (int \<rightharpoonup> monitor) \<Rightarrow> event list
     \<Rightarrow> alert list \<times> log_entry list \<Rightarrow> alert list \<times> log_entry list" where
  "get_alerts_loop E combine ff all_monitors [] acc = acc"
| "get_alerts_loop E combine ff all_monitors (ev # evs) (formatted_alerts, logged) =
     (case get_alerts_try E combine ff all_monitors ev of
        Inr a \<Rightarrow>
          get_alerts_loop E combine ff all_monitors evs (formatted_alerts @ [a], logged)
      | Inl e \<Rightarrow>
          get_alerts_loop E combine ff all_monitors evs
            (formatted_alerts,
             logged @ [\<lparr> log_message = ''Could not parse alert event'',
                         log_event_id = event_id ev,
                         log_monitor_id = event_monitor_id ev \<rparr>]))"

text \<open>
  \<open>_get_alerts\<close>, lines 452-524.  The two vendor calls are outside the \<open>try\<close>: their
  exceptions leave the method.  \<open>list_monitors_response\<close> is what
  \<open>list_monitors(with_downtimes=True)\<close> returns or raises; \<open>list_events_response\<close> is the
  result of \<open>list_events\<close>, whose \<open>events\<close> entry may be missing.
\<close>

definition get_alerts ::
  "env \<Rightarrow> (json option list \<Rightarrow> string) \<Rightarrow> string list \<Rightarrow> error + monitor list
     \<Rightarrow> error + event list option \<Rightarrow> error + alert list \<times> log_entry list" where
  "get_alerts E combine fingerprint_fields list_monitors_response list_events_response =
     (case list_monitors_response of
        Inl e \<Rightarrow> Inl e
      | Inr ms \<Rightarrow>
     (case list_events_response of
        Inl e \<Rightarrow> Inl e
      | Inr results \<Rightarrow>
          Inr (get_alerts_loop E combine fingerprint_fields (all_monitors_of ms)
                 (case results of None \<Rightarrow> [] | Some evs \<Rightarrow> evs) ([], []))))"

section \<open>The webhook path: \<open>format_alert\<close>\<close>

text \<open>
  Lines 632-634.  \<open>event.get("tags", "").split(",")\<close> needs a string (any other value has
  no \<open>split\<close>); \<open>tags_list.remove("monitor")\<close> is unconditional; \<open>tag.split(":")\<close> has no
  limit, and each result is unpacked into a key and a value.
\<close>

definition webhook_tags :: "json dict \<Rightarrow> error + string dict" where
  "webhook_tags ev =
     (case dict_get_default ev ''tags'' (JStr []) of
        JStr s \<Rightarrow>
          (case list_remove ''monitor'' (py_split CHR '','' s) of
             Inl e \<Rightarrow> Inl e
           | Inr tags_list \<Rightarrow> dict_comprehension (map (py_split CHR '':'') tags_list) [])
      | _ \<Rightarrow> Inl AttributeError)"

text \<open>Lines 635-637: \<open>datetime.datetime.fromtimestamp(int(event.get("last_updated")) / 1000)\<close>.\<close>

definition webhook_event_time :: "env \<Rightarrow> json dict \<Rightarrow> error + string" where
  "webhook_event_time E ev =
     (case py_int E (dict_get ev ''last_updated'') of
        Inl e \<Rightarrow> Inl e
      | Inr n \<Rightarrow> fromtimestamp_ms_str E n)"

text \<open>Line 638: \<open>severity, status, title = event.get("title").split(" ", 2)\<close>.\<close>

definition webhook_title :: "json dict \<Rightarrow> error + string \<times> string \<times> string" where
  "webhook_title ev =
     (case dict_get ev ''title'' of
        Some (JStr t) \<Rightarrow>
          (case py_splitn CHR '' '' 2 t of
             [severity0, status0, title] \<Rightarrow> Inr (severity0, status0, title)
           | _ \<Rightarrow> Inl ValueError)
      | _ \<Rightarrow> Inl AttributeError)"

text \<open>Lines 642-646: the scopes, or the wildcard when the value is falsy.\<close>

definition webhook_groups :: "json dict \<Rightarrow> error + string list" where
  "webhook_groups ev =
     (let g = dict_get_default ev ''scopes'' (JStr []) in
      if \<not> truthy g then Inr [''*'']
      else (case g of JStr s \<Rightarrow> Inr (py_split CHR '','' s) | _ \<Rightarrow> Inl AttributeError))"

text \<open>
  \<open>format_alert\<close>, lines 631-666.  The function returns the alert or raises, and it
  changes its argument: the second component is the caller's dictionary after the call.
  Statements run in the order of the source, so an exception of lines 632-638 leaves the
  dictionary as it was, and from line 639 on (\<open>event.pop("url", None)\<close>) the key is gone.
\<close>

definition format_alert ::
  "env \<Rightarrow> (json option list \<Rightarrow> string) \<Rightarrow> json dict \<Rightarrow> (error + alert) \<times> json dict" where
  "format_alert E combine ev =
     (case webhook_tags ev of
        Inl e \<Rightarrow> (Inl e, ev)
      | Inr tgs \<Rightarrow>
     (case webhook_event_time E ev of
        Inl e \<Rightarrow> (Inl e, ev)
      | Inr event_time \<Rightarrow>
     (case webhook_title ev of
        Inl e \<Rightarrow> (Inl e, ev)
      | Inr (severity0, status0, title) \<Rightarrow>
     (let u = dict_get_default ev ''url'' JNull;
          ev' = AList.delete ''url'' ev
      in
      (case webhook_groups ev' of
         Inl e \<Rightarrow> (Inl e, ev')
       | Inr gs \<Rightarrow>
      (let a = \<lparr> alert_id = dict_get_default ev' ''id'' JNull,
                 name = title,
                 status = rstrip CHR '']'' (lstrip CHR ''['' status0),
                 lastReceived = event_time,
                 severity = get_parsed_severity
                              (dict_get_default ev' ''severity'' (JStr severity0)),
                 message = dict_get_default ev' ''body'' JNull,
                 monitor_id = dict_get_default ev' ''monitor_id'' JNull,
                 groups = Some gs,
                 source = [''datadog''],
                 tags = tgs,
                 created_by = None,
                 url = u,
                 fingerprint = None \<rparr>
       in (Inr (a\<lparr> fingerprint :=
                     Some (get_alert_fingerprint combine a FINGERPRINT_FIELDS) \<rparr>),
           ev')))))))"

section \<open>Webhook provisioning: \<open>setup_webhook\<close>\<close>

definition KEEP_DATADOG_WEBHOOK_INTEGRATION_NAME :: string where
  "KEEP_DATADOG_WEBHOOK_INTEGRATION_NAME = ''keep-datadog-webhook-integration''"

text \<open>
  \<open>WEBHOOK_PAYLOAD\<close>, lines 139-157, and the \<open>custom_headers\<close> of a request body: both are
  \<open>json.dumps\<close> of a dict in the source and are kept here as the document that is dumped.
\<close>

definition WEBHOOK_PAYLOAD :: json where
  "WEBHOOK_PAYLOAD = JObj
     [(''body'', JStr ''$EVENT_MSG''),
      (''last_updated'', JStr ''$LAST_UPDATED''),
      (''event_type'', JStr ''$EVENT_TYPE''),
      (''title'', JStr ''$EVENT_TITLE''),
      (''severity'', JStr ''$ALERT_PRIORITY''),
      (''alert_type'', JStr ''$ALERT_TYPE''),
      (''alert_query'', JStr ''$ALERT_QUERY''),
      (''alert_transition'', JStr ''$ALERT_TRANSITION''),
      (''date'', JStr ''$DATE''),
      (''scopes'', JStr ''$ALERT_SCOPE''),
      (''org'', JObj [(''id'', JStr ''$ORG_ID''), (''name'', JStr ''$ORG_NAME'')]),
      (''url'', JStr ''$LINK''),
      (''tags'', JStr ''$TAGS''),
      (''id'', JStr ''$ID''),
      (''monitor_id'', JStr ''$ALERT_ID'')]"

definition custom_headers_of :: "string \<Rightarrow> string dict" where
  "custom_headers_of api_key =
     [(''Content-Type'', ''application/json''), (''X-API-KEY'', api_key)]"

text \<open>
  The vendor side, as an explicit store.  The source only calls the vendor's endpoints;
  what they answer is the vendor's behaviour, fixed here as follows.  A lookup raises
  \<open>ForbiddenException\<close> when the credentials may not read webhooks and
  \<open>NotFoundException\<close> when no registration has the name; a creation under a name that
  exists raises \<open>ApiException\<close> with the error \<open>Webhook already exists\<close>; an update
  overwrites the url, headers and payload of the named registration, and raises
  \<open>NotFoundException\<close> when there is none.
\<close>

record webhook =
  wh_name :: string
  wh_url :: string
  wh_custom_headers :: "string dict"
  wh_encode_as :: "string option"
  wh_payload :: json

record vendor =
  webhooks :: "webhook list"
  lookup_forbidden :: bool
  monitors :: "monitor list"

datatype api_call =
    GetWebhook string
  | UpdateWebhook string
  | CreateWebhook string
  | ListMonitors
  | UpdateMonitor int

definition get_webhooks_integration :: "vendor \<Rightarrow> string \<Rightarrow> error + webhook" where
  "get_webhooks_integration v n =
     (if lookup_forbidden v then Inl (ForbiddenException [''Forbidden''])
      else (case find (\<lambda>w. wh_name w = n) (webhooks v) of
              None \<Rightarrow> Inl (NotFoundException [''Not found''])
            | Some w \<Rightarrow> Inr w))"

definition update_webhooks_integration ::
  "vendor \<Rightarrow> string \<Rightarrow> string \<Rightarrow> string dict \<Rightarrow> json \<Rightarrow> (error + unit) \<times> vendor" where
  "update_webhooks_integration v n u hs pl =
     (if find (\<lambda>w. wh_name w = n) (webhooks v) = None
      then (Inl (NotFoundException [''Not found'']), v)
      else (Inr (),
            v\<lparr> webhooks :=
                 map (\<lambda>w. if wh_name w = n
                           then w\<lparr> wh_url := u, wh_custom_headers := hs, wh_payload := pl \<rparr>
                           else w)
                     (webhooks v) \<rparr>))"

definition create_webhooks_integration ::
  "vendor \<Rightarrow> webhook \<Rightarrow> (error + webhook) \<times> vendor" where
  "create_webhooks_integration v w =
     (if find (\<lambda>w'. wh_name w' = wh_name w) (webhooks v) \<noteq> None
      then (Inl (ApiException [''Webhook already exists'']), v)
      else (Inr w, v\<lparr> webhooks := webhooks v @ [w] \<rparr>))"

definition update_monitor :: "vendor \<Rightarrow> int \<Rightarrow> string \<Rightarrow> (error + unit) \<times> vendor" where
  "update_monitor v i msg =
     (if find (\<lambda>m. mon_id m = i) (monitors v) = None
      then (Inl (NotFoundException [''Not found'']), v)
      else (Inr (),
            v\<lparr> monitors :=
                 map (\<lambda>m. if mon_id m = i then m\<lparr> mon_message := Some msg \<rparr> else m)
                     (monitors v) \<rparr>))"

text \<open>The exception classes the handlers of \<open>setup_webhook\<close> name, and \<open>exc.body["errors"]\<close>.\<close>

fun not_found_or_forbidden :: "error \<Rightarrow> bool" where
  "not_found_or_forbidden (NotFoundException es) = True"
| "not_found_or_forbidden (ForbiddenException es) = True"
| "not_found_or_forbidden e = False"

fun is_api_exception :: "error \<Rightarrow> bool" where
  "is_api_exception (NotFoundException es) = True"
| "is_api_exception (ForbiddenException es) = True"
| "is_api_exception (ApiException es) = True"
| "is_api_exception e = False"

fun body_errors :: "error \<Rightarrow> string list" where
  "body_errors (NotFoundException es) = es"
| "body_errors (ForbiddenException es) = es"
| "body_errors (ApiException es) = es"
| "body_errors e = []"

definition webhook_name_of :: "string \<Rightarrow> string" where
  "webhook_name_of tenant_id = KEEP_DATADOG_WEBHOOK_INTEGRATION_NAME @ ''-'' @ tenant_id"

text \<open>
  Lines 533-551, the \<open>try\<close> block: look the registration up and update it when its url
  differs.  The result is the exception that leaves the block, if any, the vendor's state
  and the calls made.
\<close>

definition setup_webhook_lookup ::
  "string \<Rightarrow> string \<Rightarrow> string \<Rightarrow> vendor \<Rightarrow> (error + unit) \<times> vendor \<times> api_call list" where
  "setup_webhook_lookup webhook_name keep_api_url api_key v =
     (case get_webhooks_integration v webhook_name of
        Inl e \<Rightarrow> (Inl e, v, [GetWebhook webhook_name])
      | Inr w \<Rightarrow>
          if wh_url w \<noteq> keep_api_url then
            (case update_webhooks_integration v (wh_name w) keep_api_url
                    (custom_headers_of api_key) WEBHOOK_PAYLOAD of
               (r, v') \<Rightarrow> (r, v', [GetWebhook webhook_name, UpdateWebhook (wh_name w)]))
          else (Inr (), v, [GetWebhook webhook_name]))"

text \<open>
  Lines 553-591, the handler of \<open>NotFoundException\<close> and \<open>ForbiddenException\<close>: create the
  registration; when the vendor answers that it exists, update it instead, and only log a
  failure of that update.  Any other exception is raised again.
\<close>

definition setup_webhook_create ::
  "string \<Rightarrow> string \<Rightarrow> string \<Rightarrow> vendor \<Rightarrow> (error + unit) \<times> vendor \<times> api_call list" where
  "setup_webhook_create webhook_name keep_api_url api_key v =
     (case create_webhooks_integration v
             \<lparr> wh_name = webhook_name, wh_url = keep_api_url,
               wh_custom_headers = custom_headers_of api_key,
               wh_encode_as = Some ''json'', wh_payload = WEBHOOK_PAYLOAD \<rparr> of
        (Inr w, v') \<Rightarrow> (Inr (), v', [CreateWebhook webhook_name])
      | (Inl exc, v') \<Rightarrow>
          if is_api_exception exc \<and> ''Webhook already exists'' \<in> set (body_errors exc) then
            (case update_webhooks_integration v' webhook_name keep_api_url
                    (custom_headers_of api_key) WEBHOOK_PAYLOAD of
               (Inr u, v'') \<Rightarrow>
                 (Inr (), v'', [CreateWebhook webhook_name, UpdateWebhook webhook_name])
             | (Inl e, v'') \<Rightarrow>
                 ((if is_api_exception e then Inr () else Inl e), v'',
                  [CreateWebhook webhook_name, UpdateWebhook webhook_name]))
          else (Inl exc, v', [CreateWebhook webhook_name]))"

text \<open>
  Lines 597-628, the loop over the monitors listed at line 596.  Each monitor is handled
  in its own \<open>try\<close>: a message of \<open>None\<close> makes the containment test raise, and an
  exception of the update is caught as well; both are logged and the loop goes on.
\<close>

fun setup_webhook_monitors ::
  "string \<Rightarrow> monitor list \<Rightarrow> vendor \<times> api_call list \<Rightarrow> vendor \<times> api_call list" where
  "setup_webhook_monitors webhook_name [] st = st"
| "setup_webhook_monitors webhook_name (m # ms) (v, calls) =
     (case mon_message m of
        None \<Rightarrow> setup_webhook_monitors webhook_name ms (v, calls)
      | Some monitor_message \<Rightarrow>
          if \<not> str_contains (''@webhook-'' @ webhook_name) monitor_message then
            (case update_monitor v (mon_id m)
                    (monitor_message @ '' @webhook-'' @ webhook_name) of
               (r, v') \<Rightarrow>
                 setup_webhook_monitors webhook_name ms (v', calls @ [UpdateMonitor (mon_id m)]))
          else setup_webhook_monitors webhook_name ms (v, calls))"

text \<open>\<open>setup_webhook\<close>, lines 526-629.\<close>

definition setup_webhook ::
  "string \<Rightarrow> string \<Rightarrow> string \<Rightarrow> bool \<Rightarrow> vendor \<Rightarrow> (error + unit) \<times> vendor \<times> api_call list" where
  "setup_webhook tenant_id keep_api_url api_key setup_alerts v =
     (let webhook_name = webhook_name_of tenant_id;
          (r, v1, calls1) =
            (case setup_webhook_lookup webhook_name keep_api_url api_key v of
               (Inl e, v', calls) \<Rightarrow>
                 if not_found_or_forbidden e then
                   (case setup_webhook_create webhook_name keep_api_url api_key v' of
                      (r', v'', calls') \<Rightarrow> (r', v'', calls @ calls'))
                 else (Inl e, v', calls)
             | (Inr u, v', calls) \<Rightarrow> (Inr (), v', calls))
      in
      (case r of
         Inl e \<Rightarrow> (Inl e, v1, calls1)
       | Inr u \<Rightarrow>
           if setup_alerts then
             (case setup_webhook_monitors webhook_name (monitors v1)
                     (v1, calls1 @ [ListMonitors]) of
                (v2, calls2) \<Rightarrow> (Inr (), v2, calls2))
           else (Inr (), v1, calls1)))"

section \<open>Sample inputs\<close>

text \<open>
  Concrete inputs on which the theorems below are instantiated: an environment whose
  clock conversions always succeed, a combination rule that concatenates the string
  values it is given, one monitor and a few events.
\<close>

definition example_env :: env where
  "example_env =
     \<lparr> fromtimestamp_isoformat = (\<lambda>t. Inr ''2023-11-14T22:13:20''),
       int_of_str = (\<lambda>s. if s = ''1700000000000'' then Some 1700000000000 else None),
       fromtimestamp_ms_str = (\<lambda>n. Inr ''2023-11-14 22:13:20'') \<rparr>"

fun example_render :: "json option \<Rightarrow> string" where
  "example_render (Some (JStr s)) = s"
| "example_render (Some (JList xs)) =
     concat (map (\<lambda>x. case x of JStr s \<Rightarrow> s | _ \<Rightarrow> ''?'') xs)"
| "example_render v = ''?''"

definition example_combine :: "json option list \<Rightarrow> string" where
  "example_combine vs = concat (map example_render vs)"

definition example_monitor :: monitor where
  "example_monitor =
     \<lparr> mon_id = 7, mon_name = ''cpu'', mon_message = Some ''CPU is high'',
       mon_creator = Some \<lparr> email = Some ''ops@example.com'' \<rparr>,
       matching_downtimes = [] \<rparr>"

definition muted_monitor :: monitor where
  "muted_monitor =
     example_monitor\<lparr> matching_downtimes :=
       [\<lparr> downtime_groups = Some [''host:a''], downtime_scope = Some [''host:a''] \<rparr>] \<rparr>"

definition example_event :: event where
  "example_event =
     \<lparr> event_id = 1, event_title = ''[P1] [Alert] CPU high'', event_text = ''cpu above 90'',
       event_tags = [''env:prod'', ''monitor''], event_date_happened = Some 1700000000,
       event_monitor_id = Some 7, event_monitor_groups = Some [''host:a''] \<rparr>"

definition p9_event :: event where
  "p9_event = example_event\<lparr> event_title := ''[P9] [Alert] CPU high'' \<rparr>"

definition malformed_event :: event where
  "malformed_event = example_event\<lparr> event_id := 2, event_title := ''CPU high'' \<rparr>"

definition muted_title_event :: event where
  "muted_title_event = example_event\<lparr> event_title := ''[P1] [Muted] CPU high'' \<rparr>"

definition orphan_event :: event where
  "orphan_event = example_event\<lparr> event_id := 3, event_monitor_id := Some 8 \<rparr>"

text \<open>Webhook payloads: a well-formed one and variations of it.\<close>

definition example_payload :: "json dict" where
  "example_payload =
     [(''body'', JStr ''cpu above 90''),
      (''last_updated'', JStr ''1700000000000''),
      (''title'', JStr ''[P1] [Alert] CPU high''),
      (''severity'', JStr ''P2''),
      (''scopes'', JStr ''host:a''),
      (''url'', JStr ''https://app.example.com/monitors/7''),
      (''tags'', JStr ''monitor,env:prod,team:sre''),
      (''id'', JStr ''42''),
      (''monitor_id'', JStr ''7'')]"

definition payload_without_severity :: "json dict" where
  "payload_without_severity = AList.delete ''severity'' example_payload"

definition payload_without_marker :: "json dict" where
  "payload_without_marker = AList.update ''tags'' (JStr ''env:prod,team:sre'') example_payload"

definition payload_without_title :: "json dict" where
  "payload_without_title = AList.delete ''title'' example_payload"

definition payload_bad_scopes :: "json dict" where
  "payload_bad_scopes = AList.update ''scopes'' (JInt 5) example_payload"

definition payload_renamed :: "json dict" where
  "payload_renamed =
     AList.update ''title'' (JStr ''[P3] [Warn] Disk almost full'')
       (AList.update ''severity'' (JStr ''P3'') example_payload)"

text \<open>A vendor account with no webhook registered, and the same after one provisioning.\<close>

definition example_vendor :: vendor where
  "example_vendor = \<lparr> webhooks = [], lookup_forbidden = False, monitors = [example_monitor] \<rparr>"

definition provisioned_vendor :: vendor where
  "provisioned_vendor =
     fst (snd (setup_webhook ''t1'' ''https://keep.example.com/alerts/event/datadog''
                 ''secret'' True example_vendor))"

definition unreadable_vendor :: vendor where
  "unreadable_vendor = provisioned_vendor\<lparr> lookup_forbidden := True \<rparr>"

section \<open>Properties of the polled path\<close>

subsection \<open>Tag parsing never fails\<close>

lemma py_splitn_one:
  "c \<in> set s \<Longrightarrow> \<exists>k v. py_splitn c (Suc 0) s = [k, v]"
proof (induction s)
  case Nil
  then show ?case by simp
next
  case (Cons x xs)
  show ?case
  proof (cases "x = c")
    case True
    then show ?thesis by simp
  next
    case False
    with Cons.prems have "c \<in> set xs" by simp
    then obtain k v where "py_splitn c (Suc 0) xs = [k, v]"
      using Cons.IH by blast
    with False show ?thesis by simp
  qed
qed

lemma dict_comprehension_pairs:
  "(\<forall>p \<in> set ps. \<exists>k v. p = [k, v]) \<Longrightarrow> \<exists>d. dict_comprehension ps acc = Inr d"
proof (induction ps arbitrary: acc)
  case Nil
  then show ?case by simp
next
  case (Cons p ps)
  then obtain k v where p: "p = [k, v]" by auto
  from Cons.prems have "\<forall>q \<in> set ps. \<exists>k v. q = [k, v]" by simp
  then obtain d where "dict_comprehension ps (AList.update k v acc) = Inr d"
    using Cons.IH by blast
  with p show ?case by simp
qed

lemma polled_tags_total: "\<exists>d. polled_tags ts = Inr d"
  unfolding polled_tags_def
  by (rule dict_comprehension_pairs) (auto simp: py_splitn_one)

subsection \<open>When one event is normalised, and to what\<close>

lemma get_alerts_try_resolved:
  assumes split: "py_splitn CHR '' '' 2 (event_title ev) = [severity0, status0, title]"
      and recv: "polled_received E ev = Inr received"
      and mon: "monitors_get all_monitors (event_monitor_id ev) = Some m"
  shows "\<exists>a. get_alerts_try E combine ff all_monitors ev = Inr a
           \<and> name a = title
           \<and> severity a =
               get_parsed_severity (JStr (rstrip CHR '']'' (lstrip CHR ''['' severity0)))
           \<and> status a = (if filter (downtime_matches ev) (matching_downtimes m) = []
                          then rstrip CHR '']'' (lstrip CHR ''['' status0) else ''Muted'')
           \<and> created_by a = created_by_of (Some m)
           \<and> groups a = event_monitor_groups ev
           \<and> monitor_id a = (case event_monitor_id ev of None \<Rightarrow> JNull | Some i \<Rightarrow> JInt i)
           \<and> lastReceived a = received
           \<and> fingerprint a =
               Some (get_alert_fingerprint combine (a\<lparr> fingerprint := None \<rparr>) ff)"
proof -
  obtain d where d: "polled_tags (event_tags ev) = Inr d"
    using polled_tags_total by blast
  show ?thesis
    using split recv mon d
    by (simp add: get_alerts_try_def is_muted_def Let_def)
qed

lemma get_alerts_try_Inr:
  assumes "get_alerts_try E combine ff all_monitors ev = Inr a"
  shows "\<exists>severity0 status0 title received m.
           py_splitn CHR '' '' 2 (event_title ev) = [severity0, status0, title]
         \<and> polled_received E ev = Inr received
         \<and> monitors_get all_monitors (event_monitor_id ev) = Some m"
  using assms
  by (auto simp: get_alerts_try_def is_muted_def Let_def
           split: sum.splits list.splits option.splits)

lemma example_event_normalised:
  "get_alerts_try example_env example_combine FINGERPRINT_FIELDS
     (all_monitors_of [example_monitor]) example_event =
   Inr \<lparr> alert_id = JInt 1, name = ''CPU high'', status = ''Alert'',
         lastReceived = ''2023-11-14T22:13:20'', severity = Some ''critical'',
         message = JStr ''cpu above 90'', monitor_id = JInt 7,
         groups = Some [''host:a''], source = [''datadog''],
         tags = [(''env'', ''prod'')], created_by = Some ''ops@example.com'', url = JNull,
         fingerprint = Some ''host:a?'' \<rparr>"
  by code_simp

lemma malformed_event_raises:
  "get_alerts_try example_env example_combine FINGERPRINT_FIELDS
     (all_monitors_of [example_monitor]) malformed_event = Inl ValueError"
  by code_simp

subsection \<open>The loop\<close>

lemma get_alerts_loop_eq:
  "get_alerts_loop E combine ff am evs (formatted_alerts, logged) =
     (formatted_alerts @
        List.map_filter (\<lambda>ev. case get_alerts_try E combine ff am ev of
                                 Inl e \<Rightarrow> None | Inr a \<Rightarrow> Some a) evs,
      logged @
        map (\<lambda>ev. \<lparr> log_message = ''Could not parse alert event'',
                     log_event_id = event_id ev, log_monitor_id = event_monitor_id ev \<rparr>)
            (filter (\<lambda>ev. isl (get_alerts_try E combine ff am ev)) evs))"
proof (induction evs arbitrary: formatted_alerts logged)
  case Nil
  then show ?case by (simp add: List.map_filter_simps)
next
  case (Cons ev evs)
  then show ?case
    by (cases "get_alerts_try E combine ff am ev") (simp_all add: List.map_filter_simps)
qed

lemma kept_plus_skipped:
  "length (List.map_filter (\<lambda>x. case f x of Inl e \<Rightarrow> None | Inr a \<Rightarrow> Some a) xs)
     + length (filter (\<lambda>x. isl (f x)) xs) = length xs"
proof (induction xs)
  case Nil
  then show ?case by (simp add: List.map_filter_simps)
next
  case (Cons x xs)
  then show ?case by (cases "f x") (simp_all add: List.map_filter_simps)
qed

text \<open>
  Claim C2.  When the two vendor calls succeed, \<open>_get_alerts\<close> returns normally whatever
  the events are: an exception raised while one event is normalised never leaves the loop.
  The alerts returned are those of the events whose normalisation succeeds, in order; every
  other event leaves exactly one log entry carrying its id and its monitor id; the two
  together account for every event of the batch.
\<close>

theorem polled_batch_skips_failed_events:
  "\<exists>alerts logged.
     get_alerts E combine ff (Inr ms) (Inr results) = Inr (alerts, logged)
   \<and> alerts = List.map_filter
                (\<lambda>ev. case get_alerts_try E combine ff (all_monitors_of ms) ev of
                         Inl e \<Rightarrow> None | Inr a \<Rightarrow> Some a)
                (case results of None \<Rightarrow> [] | Some evs \<Rightarrow> evs)
   \<and> logged = map (\<lambda>ev. \<lparr> log_message = ''Could not parse alert event'',
                           log_event_id = event_id ev,
                           log_monitor_id = event_monitor_id ev \<rparr>)
                (filter (\<lambda>ev. isl (get_alerts_try E combine ff (all_monitors_of ms) ev))
                   (case results of None \<Rightarrow> [] | Some evs \<Rightarrow> evs))
   \<and> length alerts + length logged
       = length (case results of None \<Rightarrow> [] | Some evs \<Rightarrow> evs)"
  by (simp add: get_alerts_def get_alerts_loop_eq kept_plus_skipped)

text \<open>
  A batch of 100 events, the 41st of which has a title that does not split into three
  parts: 99 alerts are returned and the malformed event is logged.
\<close>

theorem polled_batch_skips_failed_events_witness:
  "\<exists>alerts logged.
     get_alerts example_env example_combine FINGERPRINT_FIELDS (Inr [example_monitor])
       (Inr (Some (replicate 40 example_event @ [malformed_event] @ replicate 59 example_event)))
       = Inr (alerts, logged)
   \<and> length (replicate 40 example_event @ [malformed_event] @ replicate 59 example_event) = 100
   \<and> length alerts = 99
   \<and> logged = [\<lparr> log_message = ''Could not parse alert event'',
                  log_event_id = 2, log_monitor_id = Some 7 \<rparr>]"
  using polled_batch_skips_failed_events
          [of example_env example_combine FINGERPRINT_FIELDS "[example_monitor]"
              "Some (replicate 40 example_event @ [malformed_event] @ replicate 59 example_event)"]
  apply (simp add: example_event_normalised malformed_event_raises List.map_filter_def)
  apply (simp add: malformed_event_def example_event_def)
  done

text \<open>
  Claim C3, as amended.  For every polled event that is normalised, the owning monitor is
  resolved and the status of the alert is \<open>Muted\<close> when the monitor has a matching downtime
  whose groups equal the event's \<open>monitor_groups\<close> or whose scope is the wildcard list, and
  the bracket-stripped status token of the title otherwise.  Hence, whenever that token is
  not itself \<open>Muted\<close>, the status is \<open>Muted\<close> exactly when such a downtime exists.
\<close>

theorem polled_status_muted_override:
  assumes "get_alerts_try E combine ff all_monitors ev = Inr a"
  shows "\<exists>m severity0 status0 title.
           monitors_get all_monitors (event_monitor_id ev) = Some m
         \<and> py_splitn CHR '' '' 2 (event_title ev) = [severity0, status0, title]
         \<and> status a =
             (if \<exists>d \<in> set (matching_downtimes m).
                   downtime_groups d = event_monitor_groups ev \<or> downtime_scope d = Some [''*'']
              then ''Muted'' else rstrip CHR '']'' (lstrip CHR ''['' status0))
         \<and> (rstrip CHR '']'' (lstrip CHR ''['' status0) \<noteq> ''Muted'' \<longrightarrow>
              (status a = ''Muted'') =
              (\<exists>d \<in> set (matching_downtimes m).
                   downtime_groups d = event_monitor_groups ev \<or> downtime_scope d = Some [''*'']))"
proof -
  from get_alerts_try_Inr [OF assms]
  obtain severity0 status0 title received m
    where split: "py_splitn CHR '' '' 2 (event_title ev) = [severity0, status0, title]"
      and recv: "polled_received E ev = Inr received"
      and mon: "monitors_get all_monitors (event_monitor_id ev) = Some m"
    by blast
  from get_alerts_try_resolved [OF split recv mon, of combine ff] assms
  have st: "status a = (if filter (downtime_matches ev) (matching_downtimes m) = []
                        then rstrip CHR '']'' (lstrip CHR ''['' status0) else ''Muted'')"
    by auto
  have ex: "(filter (downtime_matches ev) (matching_downtimes m) = []) =
            (\<not> (\<exists>d \<in> set (matching_downtimes m).
                   downtime_groups d = event_monitor_groups ev \<or> downtime_scope d = Some [''*'']))"
    by (auto simp: filter_empty_conv downtime_matches_def)
  from st ex split mon show ?thesis by auto
qed

text \<open>
  An event titled \<open>[P1] [Alert] CPU high\<close> whose monitor has a downtime with the event's
  groups: the alert's status is \<open>Muted\<close>, not \<open>Alert\<close>.
\<close>

theorem polled_status_muted_override_witness:
  "get_alerts_try example_env example_combine FINGERPRINT_FIELDS
     (all_monitors_of [muted_monitor]) example_event =
   Inr \<lparr> alert_id = JInt 1, name = ''CPU high'', status = ''Muted'',
         lastReceived = ''2023-11-14T22:13:20'', severity = Some ''critical'',
         message = JStr ''cpu above 90'', monitor_id = JInt 7,
         groups = Some [''host:a''], source = [''datadog''],
         tags = [(''env'', ''prod'')], created_by = Some ''ops@example.com'', url = JNull,
         fingerprint = Some ''host:a?'' \<rparr>
   \<and> monitors_get (all_monitors_of [muted_monitor]) (event_monitor_id example_event)
        = Some muted_monitor
   \<and> (\<exists>d \<in> set (matching_downtimes muted_monitor).
          downtime_groups d = event_monitor_groups example_event
          \<or> downtime_scope d = Some [''*''])"
proof -
  have r: "get_alerts_try example_env example_combine FINGERPRINT_FIELDS
     (all_monitors_of [muted_monitor]) example_event =
   Inr \<lparr> alert_id = JInt 1, name = ''CPU high'', status = ''Muted'',
         lastReceived = ''2023-11-14T22:13:20'', severity = Some ''critical'',
         message = JStr ''cpu above 90'', monitor_id = JInt 7,
         groups = Some [''host:a''], source = [''datadog''],
         tags = [(''env'', ''prod'')], created_by = Some ''ops@example.com'', url = JNull,
         fingerprint = Some ''host:a?'' \<rparr>"
    by code_simp
  have m: "monitors_get (all_monitors_of [muted_monitor]) (event_monitor_id example_event)
             = Some muted_monitor"
    by code_simp
  have t: "rstrip CHR '']'' (lstrip CHR ''['' ''[Alert]'') \<noteq> ''Muted''"
    by code_simp
  have s: "py_splitn CHR '' '' 2 (event_title example_event)
             = [''[P1]'', ''[Alert]'', ''CPU high'']"
    by code_simp
  from polled_status_muted_override [OF r] m s t
  have "\<exists>d \<in> set (matching_downtimes muted_monitor).
          downtime_groups d = event_monitor_groups example_event
          \<or> downtime_scope d = Some [''*'']"
    by simp
  with r m show ?thesis by blast
qed

text \<open>
  Claim C3 as stated fails in the direction from the status to the downtime: an event
  titled \<open>[P1] [Muted] CPU high\<close> whose monitor has no downtime at all is normalised to
  status \<open>Muted\<close>, the token of its title.
\<close>

theorem polled_status_muted_iff_counterexample:
  "map_sum id status
     (get_alerts_try example_env example_combine FINGERPRINT_FIELDS
        (all_monitors_of [example_monitor]) muted_title_event) = Inr ''Muted''
   \<and> monitors_get (all_monitors_of [example_monitor]) (event_monitor_id muted_title_event)
       = Some example_monitor
   \<and> matching_downtimes example_monitor = []"
  by code_simp

text \<open>
  Claim C6 (the code departs from it).  An event whose \<open>monitor_id\<close> resolves to no monitor
  is not normalised: reading \<open>monitor.matching_downtimes\<close> raises before the alert is
  built, so the guarded expression for \<open>created_by\<close> is never reached with \<open>None\<close>.
\<close>

theorem polled_unresolved_monitor_raises:
  assumes "monitors_get all_monitors (event_monitor_id ev) = None"
  shows "\<exists>e. get_alerts_try E combine ff all_monitors ev = Inl e"
  using assms
  by (auto simp: get_alerts_try_def is_muted_def Let_def
           split: sum.splits list.splits option.splits)

theorem polled_unresolved_monitor_raises_witness:
  "monitors_get (all_monitors_of [example_monitor]) (event_monitor_id orphan_event) = None
   \<and> (\<exists>e. get_alerts_try example_env example_combine FINGERPRINT_FIELDS
             (all_monitors_of [example_monitor]) orphan_event = Inl e)
   \<and> get_alerts example_env example_combine FINGERPRINT_FIELDS (Inr [example_monitor])
       (Inr (Some [orphan_event]))
       = Inr ([], [\<lparr> log_message = ''Could not parse alert event'',
                      log_event_id = 3, log_monitor_id = Some 8 \<rparr>])"
proof -
  have n: "monitors_get (all_monitors_of [example_monitor]) (event_monitor_id orphan_event)
             = None"
    by code_simp
  have g: "get_alerts example_env example_combine FINGERPRINT_FIELDS (Inr [example_monitor])
       (Inr (Some [orphan_event]))
       = Inr ([], [\<lparr> log_message = ''Could not parse alert event'',
                      log_event_id = 3, log_monitor_id = Some 8 \<rparr>])"
    by code_simp
  from polled_unresolved_monitor_raises [OF n, of example_env example_combine FINGERPRINT_FIELDS]
    n g
  show ?thesis by blast
qed

text \<open>
  When the monitor is resolved, \<open>created_by\<close> is the creator's email, and \<open>None\<close> when the
  monitor has no creator.
\<close>

lemma polled_created_by_resolved:
  assumes "get_alerts_try E combine ff all_monitors ev = Inr a"
  shows "\<exists>m. monitors_get all_monitors (event_monitor_id ev) = Some m
           \<and> created_by a = (case mon_creator m of None \<Rightarrow> None | Some c \<Rightarrow> email c)"
proof -
  from get_alerts_try_Inr [OF assms]
  obtain severity0 status0 title received m
    where split: "py_splitn CHR '' '' 2 (event_title ev) = [severity0, status0, title]"
      and recv: "polled_received E ev = Inr received"
      and mon: "monitors_get all_monitors (event_monitor_id ev) = Some m"
    by blast
  from get_alerts_try_resolved [OF split recv mon, of combine ff] assms mon
  show ?thesis by (auto simp: created_by_of_def)
qed

text \<open>
  Claim C7.  The title \<open>[P1] [Alert] CPU high\<close> splits at its first two spaces into exactly
  the three parts \<open>[P1]\<close>, \<open>[Alert]\<close> and \<open>CPU high\<close>; stripping the brackets gives \<open>P1\<close>
  and \<open>Alert\<close>, and \<open>P1\<close> maps to \<open>critical\<close>.  A polled event with this title, a resolved
  monitor and a convertible timestamp is normalised to an alert with severity \<open>critical\<close>
  and name \<open>CPU high\<close>; its status is \<open>Alert\<close> unless the monitor is muted for the event.
\<close>

theorem polled_title_P1_Alert_CPU_high:
  assumes "event_title ev = ''[P1] [Alert] CPU high''"
      and "polled_received E ev = Inr received"
      and "monitors_get all_monitors (event_monitor_id ev) = Some m"
  shows "py_splitn CHR '' '' 2 (event_title ev) = [''[P1]'', ''[Alert]'', ''CPU high'']
       \<and> rstrip CHR '']'' (lstrip CHR ''['' ''[P1]'') = ''P1''
       \<and> rstrip CHR '']'' (lstrip CHR ''['' ''[Alert]'') = ''Alert''
       \<and> get_parsed_severity (JStr ''P1'') = Some ''critical''
       \<and> (\<exists>a. get_alerts_try E combine ff all_monitors ev = Inr a
              \<and> severity a = Some ''critical''
              \<and> name a = ''CPU high''
              \<and> status a = (if filter (downtime_matches ev) (matching_downtimes m) = []
                             then ''Alert'' else ''Muted''))"
proof -
  have split: "py_splitn CHR '' '' 2 (event_title ev) = [''[P1]'', ''[Alert]'', ''CPU high'']"
    unfolding assms(1) by code_simp
  have sev: "rstrip CHR '']'' (lstrip CHR ''['' ''[P1]'') = ''P1''"
    by code_simp
  have stat: "rstrip CHR '']'' (lstrip CHR ''['' ''[Alert]'') = ''Alert''"
    by code_simp
  have crit: "get_parsed_severity (JStr ''P1'') = Some ''critical''"
    by (simp add: get_parsed_severity_def)
  from get_alerts_try_resolved [OF split assms(2) assms(3), of combine ff]
  obtain a where "get_alerts_try E combine ff all_monitors ev = Inr a"
    and "name a = ''CPU high''"
    and "severity a = get_parsed_severity (JStr (rstrip CHR '']'' (lstrip CHR ''['' ''[P1]'')))"
    and "status a = (if filter (downtime_matches ev) (matching_downtimes m) = []
                     then rstrip CHR '']'' (lstrip CHR ''['' ''[Alert]'') else ''Muted'')"
    by blast
  then have "\<exists>a. get_alerts_try E combine ff all_monitors ev = Inr a
              \<and> severity a = Some ''critical''
              \<and> name a = ''CPU high''
              \<and> status a = (if filter (downtime_matches ev) (matching_downtimes m) = []
                             then ''Alert'' else ''Muted'')"
    using sev stat crit by simp
  with split sev stat crit show ?thesis by blast
qed

theorem polled_title_P1_Alert_CPU_high_witness:
  "event_title example_event = ''[P1] [Alert] CPU high''
   \<and> filter (downtime_matches example_event) (matching_downtimes example_monitor) = []
   \<and> (\<exists>a. get_alerts_try example_env example_combine FINGERPRINT_FIELDS
             (all_monitors_of [example_monitor]) example_event = Inr a
          \<and> severity a = Some ''critical'' \<and> name a = ''CPU high'' \<and> status a = ''Alert'')"
proof -
  have 1: "event_title example_event = ''[P1] [Alert] CPU high''"
    by (simp add: example_event_def)
  have 2: "polled_received example_env example_event = Inr ''2023-11-14T22:13:20''"
    by code_simp
  have 3: "monitors_get (all_monitors_of [example_monitor]) (event_monitor_id example_event)
             = Some example_monitor"
    by code_simp
  have 4: "filter (downtime_matches example_event) (matching_downtimes example_monitor) = []"
    by (simp add: example_monitor_def)
  from polled_title_P1_Alert_CPU_high [OF 1 2 3, of example_combine FINGERPRINT_FIELDS] 1 4
  show ?thesis by simp
qed

text \<open>
  Claim C8.  For every value other than the four strings \<open>P1\<close>, \<open>P2\<close>, \<open>P3\<close> and \<open>P4\<close>
  the severity mapping returns \<open>None\<close>; it has no failing branch.  A polled event whose
  bracket-stripped severity token is such a value is still normalised (given a resolved
  monitor and a convertible timestamp, as for any event), with severity \<open>None\<close>.
\<close>

theorem unrecognized_severity_is_null:
  assumes "x \<notin> {JStr ''P1'', JStr ''P2'', JStr ''P3'', JStr ''P4''}"
  shows "get_parsed_severity x = None
       \<and> (\<forall>E combine ff all_monitors ev severity0 status0 title received m.
             py_splitn CHR '' '' 2 (event_title ev) = [severity0, status0, title]
           \<and> JStr (rstrip CHR '']'' (lstrip CHR ''['' severity0)) = x
           \<and> polled_received E ev = Inr received
           \<and> monitors_get all_monitors (event_monitor_id ev) = Some m
           \<longrightarrow> (\<exists>a. get_alerts_try E combine ff all_monitors ev = Inr a \<and> severity a = None))"
proof -
  have none: "get_parsed_severity x = None"
    using assms by (simp add: get_parsed_severity_def)
  show ?thesis
  proof (intro conjI allI impI)
    show "get_parsed_severity x = None" by (rule none)
  next
    fix E combine ff all_monitors ev severity0 status0 title received m
    assume h: "py_splitn CHR '' '' 2 (event_title ev) = [severity0, status0, title]
           \<and> JStr (rstrip CHR '']'' (lstrip CHR ''['' severity0)) = x
           \<and> polled_received E ev = Inr received
           \<and> monitors_get all_monitors (event_monitor_id ev) = Some m"
    then obtain a where "get_alerts_try E combine ff all_monitors ev = Inr a"
      and "severity a =
             get_parsed_severity (JStr (rstrip CHR '']'' (lstrip CHR ''['' severity0)))"
      using get_alerts_try_resolved
              [of ev severity0 status0 title E received all_monitors m combine ff]
      by blast
    with h none
    show "\<exists>a. get_alerts_try E combine ff all_monitors ev = Inr a \<and> severity a = None"
      by auto
  qed
qed

theorem unrecognized_severity_is_null_witness:
  "JStr ''P9'' \<notin> {JStr ''P1'', JStr ''P2'', JStr ''P3'', JStr ''P4''}
   \<and> get_parsed_severity (JStr ''P9'') = None
   \<and> (\<exists>a. get_alerts_try example_env example_combine FINGERPRINT_FIELDS
              (all_monitors_of [example_monitor]) p9_event = Inr a \<and> severity a = None)"
proof -
  have 1: "JStr ''P9'' \<notin> {JStr ''P1'', JStr ''P2'', JStr ''P3'', JStr ''P4''}" by simp
  have 2: "py_splitn CHR '' '' 2 (event_title p9_event) = [''[P9]'', ''[Alert]'', ''CPU high'']"
    by code_simp
  have 3: "JStr (rstrip CHR '']'' (lstrip CHR ''['' ''[P9]'')) = JStr ''P9''"
    by code_simp
  have 4: "polled_received example_env p9_event = Inr ''2023-11-14T22:13:20''"
    by code_simp
  have 5: "monitors_get (all_monitors_of [example_monitor]) (event_monitor_id p9_event)
             = Some example_monitor"
    by code_simp
  from unrecognized_severity_is_null [OF 1] 2 3 4 5 1 show ?thesis by blast
qed

section \<open>Properties of the webhook path\<close>

subsection \<open>What a successful call has done\<close>

lemma dict_get_default_delete:
  "k \<noteq> k' \<Longrightarrow> dict_get_default (AList.delete k' d) k x = dict_get_default d k x"
  by (simp add: dict_get_default_def)

lemma format_alert_head_fails:
  assumes "isl (webhook_tags ev) \<or> isl (webhook_event_time E ev) \<or> isl (webhook_title ev)"
  shows "isl (fst (format_alert E combine ev)) \<and> snd (format_alert E combine ev) = ev"
  using assms
  by (auto simp: format_alert_def Let_def split: sum.splits prod.splits)

lemma format_alert_tail:
  assumes "\<not> (isl (webhook_tags ev) \<or> isl (webhook_event_time E ev) \<or> isl (webhook_title ev))"
  shows "snd (format_alert E combine ev) = AList.delete ''url'' ev"
  using assms
  by (auto simp: format_alert_def Let_def split: sum.splits prod.splits)

lemma format_alert_severity:
  assumes "fst (format_alert E combine ev) = Inr a"
  shows "\<exists>severity0 status0 title.
           webhook_title ev = Inr (severity0, status0, title)
         \<and> severity a = get_parsed_severity (dict_get_default ev ''severity'' (JStr severity0))"
  using assms
  by (auto simp: format_alert_def Let_def dict_get_default_delete
           split: sum.splits prod.splits)

lemma format_alert_tags:
  assumes "fst (format_alert E combine ev) = Inr a"
  shows "webhook_tags ev = Inr (tags a)"
  using assms
  by (auto simp: format_alert_def Let_def split: sum.splits prod.splits)

lemma three_parts:
  "(case xs of [a, b, c] \<Rightarrow> Inr (a, b, c) | _ \<Rightarrow> Inl e) = Inr (x, y, z) \<Longrightarrow> xs = [x, y, z]"
  by (simp split: list.splits)

lemma webhook_title_Inr:
  assumes "webhook_title ev = Inr (severity0, status0, title)"
  shows "\<exists>t. dict_get ev ''title'' = Some (JStr t)
           \<and> py_splitn CHR '' '' 2 t = [severity0, status0, title]"
proof (cases "dict_get ev ''title''")
  case None
  with assms show ?thesis by (simp add: webhook_title_def)
next
  case (Some j)
  show ?thesis
  proof (cases j)
    case (JStr t)
    with Some assms
    have "(case py_splitn CHR '' '' 2 t of
             [a, b, c] \<Rightarrow> Inr (a, b, c) | _ \<Rightarrow> Inl ValueError)
          = Inr (severity0, status0, title)"
      by (simp add: webhook_title_def)
    then have "py_splitn CHR '' '' 2 t = [severity0, status0, title]"
      by (rule three_parts)
    with Some JStr show ?thesis by simp
  qed (use Some assms in \<open>simp_all add: webhook_title_def\<close>)
qed

lemma example_payload_normalised:
  "format_alert example_env example_combine example_payload =
     (Inr \<lparr> alert_id = JStr ''42'', name = ''CPU high'', status = ''Alert'',
            lastReceived = ''2023-11-14 22:13:20'', severity = Some ''high'',
            message = JStr ''cpu above 90'', monitor_id = JStr ''7'',
            groups = Some [''host:a''], source = [''datadog''],
            tags = [(''env'', ''prod''), (''team'', ''sre'')],
            created_by = None, url = JStr ''https://app.example.com/monitors/7'',
            fingerprint = Some ''host:a7'' \<rparr>,
      AList.delete ''url'' example_payload)"
  by code_simp

lemma payload_renamed_normalised:
  "fst (format_alert example_env example_combine payload_renamed) =
     Inr \<lparr> alert_id = JStr ''42'', name = ''Disk almost full'', status = ''Warn'',
           lastReceived = ''2023-11-14 22:13:20'', severity = Some ''medium'',
           message = JStr ''cpu above 90'', monitor_id = JStr ''7'',
           groups = Some [''host:a''], source = [''datadog''],
           tags = [(''env'', ''prod''), (''team'', ''sre'')],
           created_by = None, url = JStr ''https://app.example.com/monitors/7'',
           fingerprint = Some ''host:a7'' \<rparr>"
  by code_simp

subsection \<open>Tags\<close>

lemma list_remove_absent: "v \<notin> set xs \<Longrightarrow> list_remove v xs = Inl ValueError"
  by (induction xs) auto

text \<open>
  The example of the claim: with the marker present and every other token of the form
  \<open>key:value\<close>, the tags are the pairs.
\<close>

lemma webhook_tags_example:
  "webhook_tags [(''tags'', JStr ''monitor,env:prod,team:sre'')]
     = Inr [(''env'', ''prod''), (''team'', ''sre'')]"
  by code_simp

text \<open>
  A value with a second colon splits into three parts on the webhook path and cannot be
  unpacked, where the polled path splits at the first colon only.
\<close>

lemma webhook_tags_second_colon:
  "webhook_tags [(''tags'', JStr ''monitor,env:prod,url:http://x'')] = Inl ValueError"
  "polled_tags [''monitor'', ''env:prod'', ''url:http://x'']
     = Inr [(''env'', ''prod''), (''url'', ''http://x'')]"
  by code_simp+

text \<open>
  Claim C4 (the code departs from it).  The marker is not discarded "if present":
  \<open>tags_list.remove("monitor")\<close> is unconditional, so whenever no token of the tags string
  is \<open>monitor\<close> the call raises \<open>ValueError\<close> at line 633, before anything else is read,
  and returns no alert.
\<close>

theorem webhook_tags_without_marker_raise:
  assumes "dict_get_default ev ''tags'' (JStr []) = JStr s"
      and "''monitor'' \<notin> set (py_split CHR '','' s)"
  shows "format_alert E combine ev = (Inl ValueError, ev)"
  using assms
  by (simp add: format_alert_def webhook_tags_def list_remove_absent)

theorem webhook_tags_without_marker_raise_witness:
  "dict_get_default payload_without_marker ''tags'' (JStr []) = JStr ''env:prod,team:sre''
   \<and> ''monitor'' \<notin> set (py_split CHR '','' ''env:prod,team:sre'')
   \<and> format_alert example_env example_combine payload_without_marker
       = (Inl ValueError, payload_without_marker)"
proof -
  have 1: "dict_get_default payload_without_marker ''tags'' (JStr []) = JStr ''env:prod,team:sre''"
    by code_simp
  have 2: "''monitor'' \<notin> set (py_split CHR '','' ''env:prod,team:sre'')"
    by code_simp
  note 3 = webhook_tags_without_marker_raise [OF 1 2, of example_env example_combine]
  from 1 2 3 show ?thesis by (intro conjI)
qed

subsection \<open>Severity\<close>

text \<open>
  The severity of a webhook alert is \<open>__get_parsed_severity\<close>, the function the polled
  path uses, applied to the payload's \<open>severity\<close> entry when the key is present and to the
  first part of the three-way split of the title when it is absent.
\<close>

lemma webhook_severity_rule:
  assumes "fst (format_alert E combine ev) = Inr a"
  shows "\<exists>t severity0 status0 title.
           dict_get ev ''title'' = Some (JStr t)
         \<and> py_splitn CHR '' '' 2 t = [severity0, status0, title]
         \<and> severity a =
             get_parsed_severity
               (case dict_get ev ''severity'' of None \<Rightarrow> JStr severity0 | Some v \<Rightarrow> v)
         \<and> map get_parsed_severity [JStr ''P1'', JStr ''P2'', JStr ''P3'', JStr ''P4'']
             = [Some ''critical'', Some ''high'', Some ''medium'', Some ''low'']
         \<and> (\<forall>x. x \<notin> {JStr ''P1'', JStr ''P2'', JStr ''P3'', JStr ''P4''}
                \<longrightarrow> get_parsed_severity x = None)"
proof -
  from format_alert_severity [OF assms]
  obtain severity0 status0 title
    where ti: "webhook_title ev = Inr (severity0, status0, title)"
      and sv: "severity a = get_parsed_severity (dict_get_default ev ''severity'' (JStr severity0))"
    by blast
  from webhook_title_Inr [OF ti] obtain t where t: "dict_get ev ''title'' = Some (JStr t)"
      and sp: "py_splitn CHR '' '' 2 t = [severity0, status0, title]"
    by blast
  have rule: "map get_parsed_severity [JStr ''P1'', JStr ''P2'', JStr ''P3'', JStr ''P4'']
             = [Some ''critical'', Some ''high'', Some ''medium'', Some ''low'']"
    by (simp add: get_parsed_severity_def)
  have other: "\<forall>x. x \<notin> {JStr ''P1'', JStr ''P2'', JStr ''P3'', JStr ''P4''}
                \<longrightarrow> get_parsed_severity x = None"
    by (simp add: get_parsed_severity_def)
  from sv have sev: "severity a = get_parsed_severity
               (case dict_get ev ''severity'' of None \<Rightarrow> JStr severity0 | Some v \<Rightarrow> v)"
    by (simp add: dict_get_default_def dict_get_def)
  from t sp sev rule other
  have "dict_get ev ''title'' = Some (JStr t)
         \<and> py_splitn CHR '' '' 2 t = [severity0, status0, title]
         \<and> severity a =
             get_parsed_severity
               (case dict_get ev ''severity'' of None \<Rightarrow> JStr severity0 | Some v \<Rightarrow> v)
         \<and> map get_parsed_severity [JStr ''P1'', JStr ''P2'', JStr ''P3'', JStr ''P4'']
             = [Some ''critical'', Some ''high'', Some ''medium'', Some ''low'']
         \<and> (\<forall>x. x \<notin> {JStr ''P1'', JStr ''P2'', JStr ''P3'', JStr ''P4''}
                \<longrightarrow> get_parsed_severity x = None)"
    by (intro conjI)
  then show ?thesis by (intro exI)
qed

text \<open>
  A payload titled \<open>[P1] [Alert] CPU high\<close> with the severity field \<open>P2\<close>: the field wins
  and the alert's severity is \<open>high\<close>.
\<close>

lemma webhook_severity_field_preferred:
  "map_sum id severity (fst (format_alert example_env example_combine example_payload))
     = Inr (Some ''high'')
   \<and> dict_get example_payload ''title'' = Some (JStr ''[P1] [Alert] CPU high'')
   \<and> dict_get example_payload ''severity'' = Some (JStr ''P2'')"
  by code_simp

text \<open>
  Claim C5 (the code departs from it).  When the payload has no \<open>severity\<close> key, the
  title's first part is not mapped by the rule of the polled path: line 651 strips the
  brackets of the status, but lines 656-658 pass the severity part as it was split, with
  its brackets.  For the title \<open>[P1] [Alert] CPU high\<close> the webhook alert therefore has
  no severity, where the polled path strips the part to \<open>P1\<close> and gives \<open>critical\<close>.
\<close>

theorem webhook_title_severity_not_stripped:
  assumes "fst (format_alert E combine ev) = Inr a"
      and "dict_get ev ''severity'' = None"
      and "dict_get ev ''title'' = Some (JStr ''[P1] [Alert] CPU high'')"
  shows "severity a = None
       \<and> get_parsed_severity (JStr (rstrip CHR '']'' (lstrip CHR ''['' ''[P1]'')))
           = Some ''critical''"
proof -
  from webhook_severity_rule [OF assms(1)]
  obtain t severity0 status0 title
    where t: "dict_get ev ''title'' = Some (JStr t)"
      and sp: "py_splitn CHR '' '' 2 t = [severity0, status0, title]"
      and sv: "severity a =
                 get_parsed_severity
                   (case dict_get ev ''severity'' of None \<Rightarrow> JStr severity0 | Some v \<Rightarrow> v)"
    by (elim exE conjE)
  from t assms(3) have "t = ''[P1] [Alert] CPU high''" by simp
  moreover have "py_splitn CHR '' '' 2 ''[P1] [Alert] CPU high''
                   = [''[P1]'', ''[Alert]'', ''CPU high'']"
    by code_simp
  ultimately have "severity0 = ''[P1]''" using sp by simp
  with sv assms(2) have none: "severity a = None"
    by (simp add: get_parsed_severity_def)
  have "rstrip CHR '']'' (lstrip CHR ''['' ''[P1]'') = ''P1''"
    by code_simp
  then have crit: "get_parsed_severity (JStr (rstrip CHR '']'' (lstrip CHR ''['' ''[P1]'')))
                     = Some ''critical''"
    by (simp add: get_parsed_severity_def)
  from none crit show ?thesis by (intro conjI)
qed

text \<open>
  The same title on both paths: the webhook payload without a severity field gives no
  severity, the polled event gives \<open>critical\<close>.
\<close>

theorem webhook_title_severity_not_stripped_witness:
  "dict_get payload_without_severity ''severity'' = None
   \<and> dict_get payload_without_severity ''title'' = Some (JStr ''[P1] [Alert] CPU high'')
   \<and> fst (format_alert example_env example_combine payload_without_severity) =
       Inr \<lparr> alert_id = JStr ''42'', name = ''CPU high'', status = ''Alert'',
             lastReceived = ''2023-11-14 22:13:20'', severity = None,
             message = JStr ''cpu above 90'', monitor_id = JStr ''7'',
             groups = Some [''host:a''], source = [''datadog''],
             tags = [(''env'', ''prod''), (''team'', ''sre'')],
             created_by = None, url = JStr ''https://app.example.com/monitors/7'',
             fingerprint = Some ''host:a7'' \<rparr>
   \<and> event_title example_event = ''[P1] [Alert] CPU high''
   \<and> map_sum id severity
         (get_alerts_try example_env example_combine FINGERPRINT_FIELDS
            (all_monitors_of [example_monitor]) example_event) = Inr (Some ''critical'')"
proof -
  let ?a = "\<lparr> alert_id = JStr ''42'', name = ''CPU high'', status = ''Alert'',
             lastReceived = ''2023-11-14 22:13:20'',
             severity = get_parsed_severity (JStr ''[P1]''),
             message = JStr ''cpu above 90'', monitor_id = JStr ''7'',
             groups = Some [''host:a''], source = [''datadog''],
             tags = [(''env'', ''prod''), (''team'', ''sre'')],
             created_by = None, url = JStr ''https://app.example.com/monitors/7'',
             fingerprint = Some ''host:a7'' \<rparr>"
  have s: "dict_get payload_without_severity ''severity'' = None"
    by code_simp
  have t: "dict_get payload_without_severity ''title'' = Some (JStr ''[P1] [Alert] CPU high'')"
    by code_simp
  have r: "fst (format_alert example_env example_combine payload_without_severity) = Inr ?a"
    by code_simp
  note th = webhook_title_severity_not_stripped [OF r s t, THEN conjunct1]
  from th have n: "get_parsed_severity (JStr ''[P1]'') = None" by simp
  have e: "event_title example_event = ''[P1] [Alert] CPU high''"
    by (simp add: example_event_def)
  have p: "map_sum id severity
         (get_alerts_try example_env example_combine FINGERPRINT_FIELDS
            (all_monitors_of [example_monitor]) example_event) = Inr (Some ''critical'')"
    by (simp add: example_event_normalised)
  from r n have r': "fst (format_alert example_env example_combine payload_without_severity) =
       Inr \<lparr> alert_id = JStr ''42'', name = ''CPU high'', status = ''Alert'',
             lastReceived = ''2023-11-14 22:13:20'', severity = None,
             message = JStr ''cpu above 90'', monitor_id = JStr ''7'',
             groups = Some [''host:a''], source = [''datadog''],
             tags = [(''env'', ''prod''), (''team'', ''sre'')],
             created_by = None, url = JStr ''https://app.example.com/monitors/7'',
             fingerprint = Some ''host:a7'' \<rparr>"
    by simp
  from s t r' e p show ?thesis by (intro conjI)
qed

subsection \<open>The caller's dictionary\<close>

text \<open>
  Claim C10, as amended.  The dictionary after the call is the input without its \<open>url\<close>
  key when lines 632-638 (tags, \<open>last_updated\<close>, title) raise nothing, and the unchanged
  input when one of them raises.  So after a successful call, and after a call that fails
  from line 639 on, \<open>url\<close> is gone; every key other than \<open>url\<close> keeps its value in all
  cases.
\<close>

theorem webhook_payload_url_popped:
  "snd (format_alert E combine ev) =
     (if isl (webhook_tags ev) \<or> isl (webhook_event_time E ev) \<or> isl (webhook_title ev)
      then ev else AList.delete ''url'' ev)
   \<and> (isl (webhook_tags ev) \<or> isl (webhook_event_time E ev) \<or> isl (webhook_title ev)
        \<longrightarrow> isl (fst (format_alert E combine ev)))
   \<and> (\<not> isl (fst (format_alert E combine ev))
        \<longrightarrow> snd (format_alert E combine ev) = AList.delete ''url'' ev
            \<and> dict_get (snd (format_alert E combine ev)) ''url'' = None)
   \<and> (\<forall>k. k \<noteq> ''url''
        \<longrightarrow> dict_get (snd (format_alert E combine ev)) k = dict_get ev k)"
proof -
  let ?head = "isl (webhook_tags ev) \<or> isl (webhook_event_time E ev) \<or> isl (webhook_title ev)"
  have d: "dict_get (AList.delete ''url'' ev) ''url'' = None"
    by (simp add: dict_get_def AList.delete_conv')
  have o: "\<forall>k. k \<noteq> ''url'' \<longrightarrow> dict_get (AList.delete ''url'' ev) k = dict_get ev k"
    by (simp add: dict_get_def)
  show ?thesis
  proof (cases ?head)
    case True
    from format_alert_head_fails [OF True, of combine] True
    show ?thesis by simp
  next
    case False
    from format_alert_tail [OF False, of combine] False d o
    show ?thesis by simp
  qed
qed

text \<open>
  A successful call, and a call that fails at line 646 (the scopes are a number): in both
  the caller's dictionary has lost \<open>url\<close> and nothing else.
\<close>

theorem webhook_payload_url_popped_witness:
  "format_alert example_env example_combine payload_bad_scopes
     = (Inl AttributeError, AList.delete ''url'' payload_bad_scopes)
   \<and> snd (format_alert example_env example_combine example_payload)
       = AList.delete ''url'' example_payload
   \<and> dict_get example_payload ''url'' = Some (JStr ''https://app.example.com/monitors/7'')
   \<and> dict_get (snd (format_alert example_env example_combine example_payload)) ''url'' = None
   \<and> dict_get (snd (format_alert example_env example_combine example_payload)) ''title''
       = dict_get example_payload ''title''"
proof -
  have a: "format_alert example_env example_combine payload_bad_scopes
     = (Inl AttributeError, AList.delete ''url'' payload_bad_scopes)"
    by code_simp
  have ok: "\<not> isl (fst (format_alert example_env example_combine example_payload))"
    by (simp add: example_payload_normalised)
  have u: "dict_get example_payload ''url'' = Some (JStr ''https://app.example.com/monitors/7'')"
    by code_simp
  have ne: "''title'' \<noteq> ''url''" by simp
  note th = webhook_payload_url_popped [of example_env example_combine example_payload]
  note 12 = th [THEN conjunct2, THEN conjunct2, THEN conjunct1, rule_format, OF ok]
  note 1 = 12 [THEN conjunct1]
  note 2 = 12 [THEN conjunct2]
  note 3 = th [THEN conjunct2, THEN conjunct2, THEN conjunct2, rule_format, OF ne]
  from a 1 u 2 3 show ?thesis by (intro conjI)
qed

text \<open>
  Claim C10 as stated fails for a call that raises before line 639: a payload without a
  title makes line 638 raise \<open>AttributeError\<close>, and the caller's dictionary still has its
  \<open>url\<close>.
\<close>

theorem webhook_payload_url_kept_counterexample:
  "format_alert example_env example_combine payload_without_title
     = (Inl AttributeError, payload_without_title)
   \<and> dict_get payload_without_title ''url'' = Some (JStr ''https://app.example.com/monitors/7'')"
  by code_simp

section \<open>The fingerprint\<close>

lemma fingerprint_fields_only:
  "get_alert_fingerprint combine a FINGERPRINT_FIELDS =
     combine [Some (case groups a of None \<Rightarrow> JNull | Some gs \<Rightarrow> json_of_strs gs),
              Some (monitor_id a)]"
  by (simp add: get_alert_fingerprint_def FINGERPRINT_FIELDS_def alert_field_def)

lemma polled_alert_fingerprint:
  assumes "get_alerts_try E combine FINGERPRINT_FIELDS all_monitors ev = Inr a"
  shows "fingerprint a = Some (get_alert_fingerprint combine a FINGERPRINT_FIELDS)"
  using assms
  by (auto simp: get_alerts_try_def is_muted_def Let_def fingerprint_fields_only
           split: sum.splits list.splits option.splits)

lemma webhook_alert_fingerprint:
  assumes "fst (format_alert E combine ev) = Inr a"
  shows "fingerprint a = Some (get_alert_fingerprint combine a FINGERPRINT_FIELDS)"
  using assms
  by (auto simp: format_alert_def Let_def fingerprint_fields_only
           split: sum.splits prod.splits)

lemma get_alerts_member:
  assumes "get_alerts E combine ff list_monitors_response list_events_response
             = Inr (alerts, logged)"
      and "a \<in> set alerts"
  shows "\<exists>all_monitors ev. get_alerts_try E combine ff all_monitors ev = Inr a"
proof -
  from assms(1) obtain ms results where
    "alerts = List.map_filter
                (\<lambda>ev. case get_alerts_try E combine ff (all_monitors_of ms) ev of
                         Inl e \<Rightarrow> None | Inr a \<Rightarrow> Some a)
                (case results of None \<Rightarrow> [] | Some evs \<Rightarrow> evs)"
    by (auto simp: get_alerts_def get_alerts_loop_eq split: sum.splits)
  with assms(2) obtain ev where
    "(case get_alerts_try E combine ff (all_monitors_of ms) ev of
        Inl e \<Rightarrow> None | Inr a \<Rightarrow> Some a) = Some a"
    by (auto simp: List.map_filter_def)
  then have "get_alerts_try E combine ff (all_monitors_of ms) ev = Inr a"
    by (simp split: sum.splits)
  then show ?thesis by (intro exI)
qed

lemma produced_alert_fingerprint:
  assumes "(get_alerts E combine FINGERPRINT_FIELDS lm le = Inr (alerts, logged)
              \<and> a \<in> set alerts)
           \<or> fst (format_alert E' combine ev) = Inr a"
  shows "fingerprint a = Some (get_alert_fingerprint combine a FINGERPRINT_FIELDS)"
  using assms
proof (elim disjE conjE)
  assume "get_alerts E combine FINGERPRINT_FIELDS lm le = Inr (alerts, logged)"
    and "a \<in> set alerts"
  from get_alerts_member [OF this] obtain all_monitors ev'
    where "get_alerts_try E combine FINGERPRINT_FIELDS all_monitors ev' = Inr a"
    by (elim exE)
  then show ?thesis by (rule polled_alert_fingerprint)
next
  assume "fst (format_alert E' combine ev) = Inr a"
  then show ?thesis by (rule webhook_alert_fingerprint)
qed

text \<open>
  Claim C1.  Let \<open>A\<close> and \<open>B\<close> each be an alert returned by \<open>_get_alerts\<close> (with the
  provider's fingerprint fields) or by \<open>format_alert\<close>, under one combination rule.  If
  their groups are equal and their monitor ids are equal, then their fingerprints are
  equal, whatever their other fields are; the fingerprint is the combination of those two
  values.
\<close>

theorem fingerprint_of_groups_and_monitor_id:
  assumes "(get_alerts E1 combine FINGERPRINT_FIELDS lm1 le1 = Inr (alerts1, logged1)
              \<and> A \<in> set alerts1)
           \<or> fst (format_alert E1' combine ev1) = Inr A"
      and "(get_alerts E2 combine FINGERPRINT_FIELDS lm2 le2 = Inr (alerts2, logged2)
              \<and> B \<in> set alerts2)
           \<or> fst (format_alert E2' combine ev2) = Inr B"
      and "groups A = groups B"
      and "monitor_id A = monitor_id B"
  shows "fingerprint A = fingerprint B
       \<and> fingerprint A = Some (get_alert_fingerprint combine A FINGERPRINT_FIELDS)
       \<and> get_alert_fingerprint combine A FINGERPRINT_FIELDS
           = get_alert_fingerprint combine B FINGERPRINT_FIELDS"
proof -
  have eq: "get_alert_fingerprint combine A FINGERPRINT_FIELDS
           = get_alert_fingerprint combine B FINGERPRINT_FIELDS"
    using assms(3) assms(4) by (simp add: fingerprint_fields_only)
  from produced_alert_fingerprint [OF assms(1)] produced_alert_fingerprint [OF assms(2)] eq
  show ?thesis by simp
qed

text \<open>
  Two webhook alerts of the same monitor and groups that differ in name, status and
  severity, and a polled alert and its copy from a batch: equal fingerprints.
\<close>

theorem fingerprint_of_groups_and_monitor_id_witness:
  "name (projr (fst (format_alert example_env example_combine example_payload)))
     \<noteq> name (projr (fst (format_alert example_env example_combine payload_renamed)))
   \<and> fingerprint (projr (fst (format_alert example_env example_combine example_payload)))
     = fingerprint (projr (fst (format_alert example_env example_combine payload_renamed)))
   \<and> fingerprint (projr (fst (format_alert example_env example_combine example_payload)))
     = Some ''host:a7''"
proof -
  let ?A = "\<lparr> alert_id = JStr ''42'', name = ''CPU high'', status = ''Alert'',
            lastReceived = ''2023-11-14 22:13:20'', severity = Some ''high'',
            message = JStr ''cpu above 90'', monitor_id = JStr ''7'',
            groups = Some [''host:a''], source = [''datadog''],
            tags = [(''env'', ''prod''), (''team'', ''sre'')],
            created_by = None, url = JStr ''https://app.example.com/monitors/7'',
            fingerprint = Some ''host:a7'' \<rparr>"
  let ?B = "\<lparr> alert_id = JStr ''42'', name = ''Disk almost full'', status = ''Warn'',
           lastReceived = ''2023-11-14 22:13:20'', severity = Some ''medium'',
           message = JStr ''cpu above 90'', monitor_id = JStr ''7'',
           groups = Some [''host:a''], source = [''datadog''],
           tags = [(''env'', ''prod''), (''team'', ''sre'')],
           created_by = None, url = JStr ''https://app.example.com/monitors/7'',
           fingerprint = Some ''host:a7'' \<rparr>"
  have a: "fst (format_alert example_env example_combine example_payload) = Inr ?A"
    by (simp add: example_payload_normalised)
  have b: "fst (format_alert example_env example_combine payload_renamed) = Inr ?B"
    by (rule payload_renamed_normalised)
  have g: "groups ?A = groups ?B" by simp
  have m: "monitor_id ?A = monitor_id ?B" by simp
  note th = fingerprint_of_groups_and_monitor_id [OF disjI2 [OF a] disjI2 [OF b] g m]
  have n: "name ?A \<noteq> name ?B" by simp
  have f: "fingerprint ?A = Some ''host:a7''" by simp
  from th [THEN conjunct1] n f show ?thesis
    unfolding a b sum.sel by (intro conjI)
qed

section \<open>Properties of webhook provisioning\<close>

lemma find_name_map:
  assumes "\<And>w. wh_name (f w) = wh_name w"
  shows "find (\<lambda>w. wh_name w = n) (map (\<lambda>w. if wh_name w = n then f w else w) ws)
           = map_option f (find (\<lambda>w. wh_name w = n) ws)"
  by (induction ws) (simp_all add: assms)

lemma find_name_append:
  "find (\<lambda>w. wh_name w = n) ws = None \<Longrightarrow> wh_name w = n
     \<Longrightarrow> find (\<lambda>w. wh_name w = n) (ws @ [w]) = Some w"
  by (induction ws) (simp_all split: if_splits)

lemma find_name_Some: "find (\<lambda>w. wh_name w = n) ws = Some w \<Longrightarrow> wh_name w = n"
  by (induction ws) (simp_all split: if_splits)

lemma setup_webhook_monitors_frame:
  "webhooks (fst (setup_webhook_monitors n ms (v, calls))) = webhooks v
   \<and> lookup_forbidden (fst (setup_webhook_monitors n ms (v, calls))) = lookup_forbidden v
   \<and> filter (\<lambda>c. \<forall>i. c \<noteq> UpdateMonitor i) (snd (setup_webhook_monitors n ms (v, calls)))
       = filter (\<lambda>c. \<forall>i. c \<noteq> UpdateMonitor i) calls"
proof (induction ms arbitrary: v calls)
  case Nil
  show ?case by simp
next
  case (Cons m ms)
  show ?case
  proof (cases "mon_message m")
    case None
    with Cons.IH [of v calls] show ?thesis by simp
  next
    case (Some s)
    show ?thesis
    proof (cases "str_contains (''@webhook-'' @ n) s")
      case True
      with Some Cons.IH [of v calls] show ?thesis by simp
    next
      case False
      obtain r v' where u: "update_monitor v (mon_id m) (s @ '' @webhook-'' @ n) = (r, v')"
        by (cases "update_monitor v (mon_id m) (s @ '' @webhook-'' @ n)")
      then have "webhooks v' = webhooks v" "lookup_forbidden v' = lookup_forbidden v"
        by (auto simp: update_monitor_def split: if_splits)
      with Some False u Cons.IH [of v' "calls @ [UpdateMonitor (mon_id m)]"]
      show ?thesis by simp
    qed
  qed
qed

lemma lookup_established:
  assumes "\<not> lookup_forbidden v"
      and "find (\<lambda>w. wh_name w = n) (webhooks v) = Some w"
      and "wh_url w = u"
  shows "setup_webhook_lookup n u k v = (Inr (), v, [GetWebhook n])"
  using assms by (simp add: setup_webhook_lookup_def get_webhooks_integration_def)

lemma lookup_result:
  assumes "\<not> lookup_forbidden v"
      and "setup_webhook_lookup n u k v = (Inr (), v1, calls)"
  shows "\<not> lookup_forbidden v1
       \<and> (\<exists>w. find (\<lambda>w. wh_name w = n) (webhooks v1) = Some w \<and> wh_url w = u)"
proof (cases "find (\<lambda>w. wh_name w = n) (webhooks v)")
  case None
  with assms show ?thesis
    by (simp add: setup_webhook_lookup_def get_webhooks_integration_def)
next
  case (Some w)
  then have nm: "wh_name w = n" by (rule find_name_Some)
  show ?thesis
  proof (cases "wh_url w = u")
    case True
    with assms Some show ?thesis
      by (simp add: setup_webhook_lookup_def get_webhooks_integration_def)
  next
    case False
    with assms Some nm
    have v1: "v1 = v\<lparr> webhooks :=
                 map (\<lambda>w. if wh_name w = n
                           then w\<lparr> wh_url := u, wh_custom_headers := custom_headers_of k,
                                   wh_payload := WEBHOOK_PAYLOAD \<rparr>
                           else w)
                     (webhooks v) \<rparr>"
      by (simp add: setup_webhook_lookup_def get_webhooks_integration_def
                    update_webhooks_integration_def)
    have "find (\<lambda>w. wh_name w = n) (webhooks v1)
            = Some (w\<lparr> wh_url := u, wh_custom_headers := custom_headers_of k,
                       wh_payload := WEBHOOK_PAYLOAD \<rparr>)"
      unfolding v1 using Some
      by (simp add: find_name_map
             [where f = "\<lambda>w. w\<lparr> wh_url := u, wh_custom_headers := custom_headers_of k,
                                  wh_payload := WEBHOOK_PAYLOAD \<rparr>"])
    with assms(1) v1 show ?thesis by simp
  qed
qed

lemma create_result:
  assumes "\<not> lookup_forbidden v"
      and "find (\<lambda>w. wh_name w = n) (webhooks v) = None"
  shows "\<exists>v1. setup_webhook_create n u k v = (Inr (), v1, [CreateWebhook n])
           \<and> \<not> lookup_forbidden v1
           \<and> (\<exists>w. find (\<lambda>w. wh_name w = n) (webhooks v1) = Some w \<and> wh_url w = u)"
  using assms
  by (simp add: setup_webhook_create_def create_webhooks_integration_def find_name_append)

lemma lookup_raises:
  assumes "\<not> lookup_forbidden v"
      and "setup_webhook_lookup n u k v = (Inl e, v', calls)"
  shows "not_found_or_forbidden e \<and> v' = v \<and> calls = [GetWebhook n]
       \<and> find (\<lambda>w. wh_name w = n) (webhooks v) = None"
proof (cases "find (\<lambda>w. wh_name w = n) (webhooks v)")
  case None
  with assms show ?thesis
    by (auto simp: setup_webhook_lookup_def get_webhooks_integration_def)
next
  case (Some w)
  then have "wh_name w = n" by (rule find_name_Some)
  with assms Some show ?thesis
    by (auto simp: setup_webhook_lookup_def get_webhooks_integration_def
                   update_webhooks_integration_def split: if_splits)
qed

lemma setup_webhook_established:
  assumes nf: "\<not> lookup_forbidden v"
      and first: "setup_webhook tenant_id u k sa v = (Inr (), v1, calls1)"
  shows "\<not> lookup_forbidden v1
       \<and> (\<exists>w. find (\<lambda>w. wh_name w = webhook_name_of tenant_id) (webhooks v1) = Some w
               \<and> wh_url w = u)"
proof -
  let ?n = "webhook_name_of tenant_id"
  obtain r va ca where lk: "setup_webhook_lookup ?n u k v = (r, va, ca)"
    by (cases "setup_webhook_lookup ?n u k v")
  have stage: "\<exists>vb cb. (case (r, va, ca) of
                  (Inl e, v', calls) \<Rightarrow>
                    if not_found_or_forbidden e then
                      (case setup_webhook_create ?n u k v' of
                         (r', v'', calls') \<Rightarrow> (r', v'', calls @ calls'))
                    else (Inl e, v', calls)
                | (Inr u, v', calls) \<Rightarrow> (Inr (), v', calls)) = (Inr (), vb, cb)
            \<and> \<not> lookup_forbidden vb
            \<and> (\<exists>w. find (\<lambda>w. wh_name w = ?n) (webhooks vb) = Some w \<and> wh_url w = u)"
  proof (cases r)
    case (Inr x)
    with lk have "setup_webhook_lookup ?n u k v = (Inr (), va, ca)" by simp
    from lookup_result [OF nf this] Inr show ?thesis by simp
  next
    case (Inl e)
    with lk have "setup_webhook_lookup ?n u k v = (Inl e, va, ca)" by simp
    from lookup_raises [OF nf this]
    have e: "not_found_or_forbidden e" and va: "va = v"
      and none: "find (\<lambda>w. wh_name w = ?n) (webhooks v) = None"
      by simp_all
    from create_result [OF nf none, of u k]
    obtain vc wc where "setup_webhook_create ?n u k v = (Inr (), vc, [CreateWebhook ?n])"
      and "\<not> lookup_forbidden vc"
      and "find (\<lambda>w. wh_name w = ?n) (webhooks vc) = Some wc" and "wh_url wc = u"
      by (elim exE conjE)
    with Inl e va show ?thesis by simp
  qed
  then obtain vb cb wb where
    st: "(case (r, va, ca) of
                  (Inl e, v', calls) \<Rightarrow>
                    if not_found_or_forbidden e then
                      (case setup_webhook_create ?n u k v' of
                         (r', v'', calls') \<Rightarrow> (r', v'', calls @ calls'))
                    else (Inl e, v', calls)
                | (Inr u, v', calls) \<Rightarrow> (Inr (), v', calls)) = (Inr (), vb, cb)"
    and nfb: "\<not> lookup_forbidden vb"
    and fwb: "find (\<lambda>w. wh_name w = ?n) (webhooks vb) = Some wb" and uwb: "wh_url wb = u"
    by (elim exE conjE)
  from fwb uwb
  have fb: "\<exists>w. find (\<lambda>w. wh_name w = ?n) (webhooks vb) = Some w \<and> wh_url w = u"
    by simp
  from first lk st
  have "v1 = (if sa then fst (setup_webhook_monitors ?n (monitors vb) (vb, cb @ [ListMonitors]))
              else vb)"
    by (simp add: setup_webhook_def Let_def split: prod.splits if_splits)
  with nfb fb setup_webhook_monitors_frame [of ?n "monitors vb" vb "cb @ [ListMonitors]"]
  show ?thesis by (simp split: if_splits)
qed

lemma setup_webhook_again:
  assumes nf: "\<not> lookup_forbidden v"
      and f: "find (\<lambda>w. wh_name w = webhook_name_of tenant_id) (webhooks v) = Some w"
      and u: "wh_url w = u"
  shows "\<exists>v2 calls2.
           setup_webhook tenant_id u k sa v = (Inr (), v2, calls2)
         \<and> webhooks v2 = webhooks v
         \<and> filter (\<lambda>c. \<forall>i. c \<noteq> UpdateMonitor i) calls2
             = GetWebhook (webhook_name_of tenant_id) # (if sa then [ListMonitors] else [])"
proof -
  let ?n = "webhook_name_of tenant_id"
  note lk = lookup_established [OF nf f u, of k]
  show ?thesis
  proof (cases sa)
    case False
    with lk show ?thesis by (simp add: setup_webhook_def)
  next
    case True
    obtain v2 calls2
      where m: "setup_webhook_monitors ?n (monitors v) (v, [GetWebhook ?n] @ [ListMonitors])
                  = (v2, calls2)"
      by (cases "setup_webhook_monitors ?n (monitors v) (v, [GetWebhook ?n] @ [ListMonitors])")
    from setup_webhook_monitors_frame [of ?n "monitors v" v "[GetWebhook ?n] @ [ListMonitors]"] m
    have "webhooks v2 = webhooks v"
      and "filter (\<lambda>c. \<forall>i. c \<noteq> UpdateMonitor i) calls2 = [GetWebhook ?n, ListMonitors]"
      by simp_all
    with True lk m show ?thesis by (simp add: setup_webhook_def)
  qed
qed

lemma no_webhook_writes:
  assumes "filter (\<lambda>c. \<forall>i. c \<noteq> UpdateMonitor i) calls = GetWebhook n # rest"
      and "set rest \<subseteq> {ListMonitors}"
  shows "UpdateWebhook x \<notin> set calls \<and> CreateWebhook x \<notin> set calls"
proof -
  have "\<And>c. c \<in> set calls \<Longrightarrow> (\<forall>i. c \<noteq> UpdateMonitor i) \<Longrightarrow> c \<in> set (GetWebhook n # rest)"
  proof -
    fix c assume "c \<in> set calls" and "\<forall>i. c \<noteq> UpdateMonitor i"
    then have "c \<in> set (filter (\<lambda>c. \<forall>i. c \<noteq> UpdateMonitor i) calls)" by simp
    then show "c \<in> set (GetWebhook n # rest)" by (simp only: assms(1))
  qed
  from this [of "UpdateWebhook x"] this [of "CreateWebhook x"] assms(2)
  show ?thesis by auto
qed

text \<open>
  With lookups permitted: after a first call that returns normally the registration exists
  with the desired url, and the second call neither updates nor creates a webhook.
\<close>

lemma setup_webhook_permitted:
  assumes "\<not> lookup_forbidden v"
      and "setup_webhook tenant_id keep_api_url api_key setup_alerts v = (Inr (), v1, calls1)"
  shows "\<exists>v2 calls2.
           setup_webhook tenant_id keep_api_url api_key setup_alerts v1 = (Inr (), v2, calls2)
         \<and> webhooks v2 = webhooks v1
         \<and> (\<forall>n. UpdateWebhook n \<notin> set calls2 \<and> CreateWebhook n \<notin> set calls2)
         \<and> (\<exists>w. get_webhooks_integration v1 (webhook_name_of tenant_id) = Inr w
                \<and> wh_url w = keep_api_url)"
proof -
  let ?n = "webhook_name_of tenant_id"
  from setup_webhook_established [OF assms]
  obtain w where nf1: "\<not> lookup_forbidden v1"
    and f: "find (\<lambda>w. wh_name w = ?n) (webhooks v1) = Some w"
    and u: "wh_url w = keep_api_url"
    by (elim exE conjE)
  from setup_webhook_again [OF nf1 f u, of api_key setup_alerts]
  obtain v2 calls2
    where s: "setup_webhook tenant_id keep_api_url api_key setup_alerts v1 = (Inr (), v2, calls2)"
      and w2: "webhooks v2 = webhooks v1"
      and c: "filter (\<lambda>c. \<forall>i. c \<noteq> UpdateMonitor i) calls2
                = GetWebhook ?n # (if setup_alerts then [ListMonitors] else [])"
    by (elim exE conjE)
  have "set (if setup_alerts then [ListMonitors] else []) \<subseteq> {ListMonitors}"
    by (cases setup_alerts) simp_all
  from no_webhook_writes [OF c this]
  have nw: "\<forall>n. UpdateWebhook n \<notin> set calls2 \<and> CreateWebhook n \<notin> set calls2"
    by simp
  from nf1 f u have g: "\<exists>w. get_webhooks_integration v1 ?n = Inr w \<and> wh_url w = keep_api_url"
    by (simp add: get_webhooks_integration_def)
  from s w2 nw g
  have "setup_webhook tenant_id keep_api_url api_key setup_alerts v1 = (Inr (), v2, calls2)
         \<and> webhooks v2 = webhooks v1
         \<and> (\<forall>n. UpdateWebhook n \<notin> set calls2 \<and> CreateWebhook n \<notin> set calls2)
         \<and> (\<exists>w. get_webhooks_integration v1 (webhook_name_of tenant_id) = Inr w
                \<and> wh_url w = keep_api_url)"
    by (intro conjI)
  then show ?thesis by (intro exI)
qed

subsection \<open>When the lookup is forbidden\<close>

text \<open>
  The handler of lines 552-591 then runs on every call: a creation is attempted, and when
  the vendor answers that the webhook exists it is updated instead.
\<close>

lemma lookup_forbidden_raises:
  assumes "lookup_forbidden v"
  shows "setup_webhook_lookup n u k v
           = (Inl (ForbiddenException [''Forbidden'']), v, [GetWebhook n])"
  using assms by (simp add: setup_webhook_lookup_def get_webhooks_integration_def)

lemma find_name_None:
  "find (\<lambda>w. wh_name w = n) ws = None \<longleftrightarrow> (\<forall>w \<in> set ws. wh_name w \<noteq> n)"
  by (induction ws) auto

lemma create_new:
  assumes "find (\<lambda>w. wh_name w = n) (webhooks v) = None"
  shows "setup_webhook_create n u k v =
           (Inr (),
            v\<lparr> webhooks := webhooks v @
                 [\<lparr> wh_name = n, wh_url = u, wh_custom_headers = custom_headers_of k,
                    wh_encode_as = Some ''json'', wh_payload = WEBHOOK_PAYLOAD \<rparr>] \<rparr>,
            [CreateWebhook n])"
  using assms by (simp add: setup_webhook_create_def create_webhooks_integration_def)

lemma create_existing:
  assumes "find (\<lambda>w. wh_name w = n) (webhooks v) \<noteq> None"
  shows "setup_webhook_create n u k v =
           (Inr (),
            v\<lparr> webhooks :=
                 map (\<lambda>w. if wh_name w = n
                           then w\<lparr> wh_url := u, wh_custom_headers := custom_headers_of k,
                                   wh_payload := WEBHOOK_PAYLOAD \<rparr>
                           else w)
                     (webhooks v) \<rparr>,
            [CreateWebhook n, UpdateWebhook n])"
proof -
  from assms obtain w where "find (\<lambda>w. wh_name w = n) (webhooks v) = Some w"
    by (cases "find (\<lambda>w. wh_name w = n) (webhooks v)") simp_all
  then show ?thesis
    by (simp add: setup_webhook_create_def create_webhooks_integration_def
                  update_webhooks_integration_def)
qed

lemma update_fixed:
  assumes "\<forall>w \<in> set ws. wh_name w = n \<longrightarrow>
             wh_url w = u \<and> wh_custom_headers w = hs \<and> wh_payload w = pl"
  shows "map (\<lambda>w. if wh_name w = n
                   then w\<lparr> wh_url := u, wh_custom_headers := hs, wh_payload := pl \<rparr>
                   else w) ws = ws"
  using assms by (induction ws) auto

lemma setup_webhook_monitors_prefix:
  "\<exists>extra. snd (setup_webhook_monitors n ms (v, calls)) = calls @ extra"
proof (induction ms arbitrary: v calls)
  case Nil
  show ?case by simp
next
  case (Cons m ms)
  show ?case
  proof (cases "mon_message m")
    case None
    with Cons.IH [of v calls] show ?thesis by simp
  next
    case (Some s)
    show ?thesis
    proof (cases "str_contains (''@webhook-'' @ n) s")
      case True
      with Some Cons.IH [of v calls] show ?thesis by simp
    next
      case False
      obtain r v' where u: "update_monitor v (mon_id m) (s @ '' @webhook-'' @ n) = (r, v')"
        by (cases "update_monitor v (mon_id m) (s @ '' @webhook-'' @ n)")
      from Cons.IH [of v' "calls @ [UpdateMonitor (mon_id m)]"]
      obtain extra where
        "snd (setup_webhook_monitors n ms (v', calls @ [UpdateMonitor (mon_id m)]))
           = (calls @ [UpdateMonitor (mon_id m)]) @ extra"
        by (elim exE)
      with Some False u
      have "snd (setup_webhook_monitors n (m # ms) (v, calls))
              = calls @ (UpdateMonitor (mon_id m) # extra)"
        by simp
      then show ?thesis by (intro exI)
    qed
  qed
qed

lemma update_keeps_found:
  assumes "find (\<lambda>w. wh_name w = n) ws \<noteq> None"
  shows "find (\<lambda>w. wh_name w = n)
           (map (\<lambda>w. if wh_name w = n
                     then w\<lparr> wh_url := u, wh_custom_headers := hs, wh_payload := pl \<rparr>
                     else w) ws) \<noteq> None"
proof -
  have "find (\<lambda>w. wh_name w = n)
           (map (\<lambda>w. if wh_name w = n
                     then w\<lparr> wh_url := u, wh_custom_headers := hs, wh_payload := pl \<rparr>
                     else w) ws)
        = map_option (\<lambda>w. w\<lparr> wh_url := u, wh_custom_headers := hs, wh_payload := pl \<rparr>)
            (find (\<lambda>w. wh_name w = n) ws)"
    by (rule find_name_map) simp
  with assms show ?thesis by simp
qed

lemma update_sets_fields:
  assumes "w \<in> set (map (\<lambda>w. if wh_name w = n
                         then w\<lparr> wh_url := u, wh_custom_headers := hs, wh_payload := pl \<rparr>
                         else w) ws)"
      and "wh_name w = n"
  shows "wh_url w = u \<and> wh_custom_headers w = hs \<and> wh_payload w = pl"
proof -
  from assms(1) obtain x
    where w: "w = (if wh_name x = n
                   then x\<lparr> wh_url := u, wh_custom_headers := hs, wh_payload := pl \<rparr>
                   else x)"
    unfolding set_map by (elim imageE)
  show ?thesis
  proof (cases "wh_name x = n")
    case True
    with w show ?thesis by simp
  next
    case False
    with w assms(2) show ?thesis by simp
  qed
qed

lemma setup_webhook_after_create:
  assumes lk: "setup_webhook_lookup (webhook_name_of tenant_id) u k v = (Inl e, v, ca)"
      and nf: "not_found_or_forbidden e"
      and cr: "setup_webhook_create (webhook_name_of tenant_id) u k v = (Inr (), vb, cb)"
      and first: "setup_webhook tenant_id u k sa v = (r, v1, calls1)"
  shows "r = Inr () \<and> webhooks v1 = webhooks vb \<and> lookup_forbidden v1 = lookup_forbidden vb
       \<and> (\<exists>extra. calls1 = (ca @ cb) @ extra)"
proof (cases sa)
  case False
  with lk nf cr have "setup_webhook tenant_id u k sa v = (Inr (), vb, ca @ cb)"
    by (simp add: setup_webhook_def Let_def)
  with first have r: "r = Inr ()" and v: "v1 = vb" and c: "calls1 = (ca @ cb) @ []"
    by simp_all
  from c have e: "\<exists>extra. calls1 = (ca @ cb) @ extra" by (intro exI)
  from r v e show ?thesis by simp
next
  case True
  let ?n = "webhook_name_of tenant_id"
  obtain v2 calls2
    where m: "setup_webhook_monitors ?n (monitors vb) (vb, (ca @ cb) @ [ListMonitors])
                = (v2, calls2)"
    by (cases "setup_webhook_monitors ?n (monitors vb) (vb, (ca @ cb) @ [ListMonitors])")
  with True lk nf cr have "setup_webhook tenant_id u k sa v = (Inr (), v2, calls2)"
    by (simp add: setup_webhook_def Let_def)
  with first have r: "r = Inr ()" and v: "v1 = v2" and c: "calls1 = calls2"
    by simp_all
  from setup_webhook_monitors_frame [of ?n "monitors vb" vb "(ca @ cb) @ [ListMonitors]"] m
  have w: "webhooks v2 = webhooks vb" and f: "lookup_forbidden v2 = lookup_forbidden vb"
    by simp_all
  from setup_webhook_monitors_prefix [of ?n "monitors vb" vb "(ca @ cb) @ [ListMonitors]"] m
  have "\<exists>extra. calls2 = ((ca @ cb) @ [ListMonitors]) @ extra"
    by simp
  then obtain extra where "calls2 = ((ca @ cb) @ [ListMonitors]) @ extra"
    by (elim exE)
  then have "calls2 = (ca @ cb) @ (ListMonitors # extra)" by simp
  then have e: "\<exists>extra. calls2 = (ca @ cb) @ extra" by (intro exI)
  from r v c w f e show ?thesis by simp
qed

lemma setup_webhook_forbidden_result:
  assumes fb: "lookup_forbidden v"
      and first: "setup_webhook tenant_id u k sa v = (r, v1, calls1)"
  shows "r = Inr ()
       \<and> lookup_forbidden v1
       \<and> find (\<lambda>w. wh_name w = webhook_name_of tenant_id) (webhooks v1) \<noteq> None
       \<and> (\<forall>w \<in> set (webhooks v1). wh_name w = webhook_name_of tenant_id \<longrightarrow>
             wh_url w = u \<and> wh_custom_headers w = custom_headers_of k
             \<and> wh_payload w = WEBHOOK_PAYLOAD)"
proof -
  let ?n = "webhook_name_of tenant_id"
  let ?upd = "\<lambda>w. if wh_name w = ?n
                    then w\<lparr> wh_url := u, wh_custom_headers := custom_headers_of k,
                            wh_payload := WEBHOOK_PAYLOAD \<rparr>
                    else w"
  let ?new = "\<lparr> wh_name = ?n, wh_url = u, wh_custom_headers = custom_headers_of k,
                wh_encode_as = Some ''json'', wh_payload = WEBHOOK_PAYLOAD \<rparr>"
  note lk = lookup_forbidden_raises [OF fb, of ?n u k]
  have nf: "not_found_or_forbidden (ForbiddenException [''Forbidden''])" by simp
  show ?thesis
  proof (cases "find (\<lambda>w. wh_name w = ?n) (webhooks v) = None")
    case True
    note res = setup_webhook_after_create [OF lk nf create_new [OF True, of u k] first]
    from res have r: "r = Inr ()" by (elim conjE)
    from res have w: "webhooks v1 = webhooks v @ [?new]" by simp
    from res fb have f: "lookup_forbidden v1" by simp
    have nm: "wh_name ?new = ?n" by simp
    from find_name_append [OF True nm] w
    have ex: "find (\<lambda>w. wh_name w = ?n) (webhooks v1) \<noteq> None" by simp
    from True have old: "\<forall>w \<in> set (webhooks v). wh_name w \<noteq> ?n"
      by (simp add: find_name_None)
    have al: "\<forall>w \<in> set (webhooks v1). wh_name w = ?n \<longrightarrow>
             wh_url w = u \<and> wh_custom_headers w = custom_headers_of k
             \<and> wh_payload w = WEBHOOK_PAYLOAD"
    proof (intro ballI impI)
      fix x assume "x \<in> set (webhooks v1)" and xn: "wh_name x = ?n"
      with w have "x = ?new \<or> x \<in> set (webhooks v)" by simp
      with old xn have "x = ?new" by (elim disjE) simp_all
      then show "wh_url x = u \<and> wh_custom_headers x = custom_headers_of k
                   \<and> wh_payload x = WEBHOOK_PAYLOAD"
        by simp
    qed
    from r f ex al show ?thesis by (intro conjI)
  next
    case False
    note res = setup_webhook_after_create [OF lk nf create_existing [OF False, of u k] first]
    from res have r: "r = Inr ()" by (elim conjE)
    from res have w: "webhooks v1 = map ?upd (webhooks v)" by simp
    from res fb have f: "lookup_forbidden v1" by simp
    from update_keeps_found [OF False] w
    have ex: "find (\<lambda>w. wh_name w = ?n) (webhooks v1) \<noteq> None" by simp
    have al: "\<forall>w \<in> set (webhooks v1). wh_name w = ?n \<longrightarrow>
             wh_url w = u \<and> wh_custom_headers w = custom_headers_of k
             \<and> wh_payload w = WEBHOOK_PAYLOAD"
    proof (intro ballI impI)
      fix x assume "x \<in> set (webhooks v1)" and xn: "wh_name x = ?n"
      with w have "x \<in> set (map ?upd (webhooks v))" by simp
      from update_sets_fields [OF this xn]
      show "wh_url x = u \<and> wh_custom_headers x = custom_headers_of k
                   \<and> wh_payload x = WEBHOOK_PAYLOAD" .
    qed
    from r f ex al show ?thesis by (intro conjI)
  qed
qed

lemma setup_webhook_forbidden_again:
  assumes fb: "lookup_forbidden v"
      and ex: "find (\<lambda>w. wh_name w = webhook_name_of tenant_id) (webhooks v) \<noteq> None"
      and same: "\<forall>w \<in> set (webhooks v). wh_name w = webhook_name_of tenant_id \<longrightarrow>
                   wh_url w = u \<and> wh_custom_headers w = custom_headers_of k
                   \<and> wh_payload w = WEBHOOK_PAYLOAD"
  shows "\<exists>v2 calls2.
           setup_webhook tenant_id u k sa v = (Inr (), v2, calls2)
         \<and> webhooks v2 = webhooks v
         \<and> take 3 calls2 = [GetWebhook (webhook_name_of tenant_id),
                             CreateWebhook (webhook_name_of tenant_id),
                             UpdateWebhook (webhook_name_of tenant_id)]"
proof -
  let ?n = "webhook_name_of tenant_id"
  let ?upd = "\<lambda>w. if wh_name w = ?n
                    then w\<lparr> wh_url := u, wh_custom_headers := custom_headers_of k,
                            wh_payload := WEBHOOK_PAYLOAD \<rparr>
                    else w"
  note lk = lookup_forbidden_raises [OF fb, of ?n u k]
  have nf: "not_found_or_forbidden (ForbiddenException [''Forbidden''])" by simp
  obtain r v2 calls2 where s: "setup_webhook tenant_id u k sa v = (r, v2, calls2)"
    by (cases "setup_webhook tenant_id u k sa v")
  note res = setup_webhook_after_create [OF lk nf create_existing [OF ex, of u k] s]
  have unchanged: "map ?upd (webhooks v) = webhooks v"
    by (rule update_fixed [OF same])
  from res have r: "r = Inr ()" by (elim conjE)
  from res unchanged have w: "webhooks v2 = webhooks v" by simp
  from res obtain extra
    where "calls2 = ([GetWebhook ?n] @ [CreateWebhook ?n, UpdateWebhook ?n]) @ extra"
    by (elim conjE exE)
  then have t: "take 3 calls2 = [GetWebhook ?n, CreateWebhook ?n, UpdateWebhook ?n]"
    by simp
  from s r w t
  have "setup_webhook tenant_id u k sa v = (Inr (), v2, calls2)
          \<and> webhooks v2 = webhooks v
          \<and> take 3 calls2 = [GetWebhook ?n, CreateWebhook ?n, UpdateWebhook ?n]"
    by simp
  then show ?thesis by (intro exI)
qed

text \<open>
  Claim C9, as amended.  After a first call of \<open>setup_webhook\<close> that returns normally, a
  second call with the same arguments returns normally and leaves the registrations as they
  were, so no duplicate is made.  When the lookup of the webhook is permitted, the second
  call finds the registration with the desired url and issues no update and no creation.
  When the lookup is forbidden, the second call attempts the creation again and, told that
  the webhook exists, sends an update with the same values.
\<close>

theorem setup_webhook_second_call:
  assumes first: "setup_webhook tenant_id keep_api_url api_key setup_alerts v
                    = (Inr (), v1, calls1)"
  shows "\<exists>v2 calls2.
           setup_webhook tenant_id keep_api_url api_key setup_alerts v1 = (Inr (), v2, calls2)
         \<and> webhooks v2 = webhooks v1
         \<and> (\<not> lookup_forbidden v \<longrightarrow>
               (\<forall>n. UpdateWebhook n \<notin> set calls2 \<and> CreateWebhook n \<notin> set calls2)
               \<and> (\<exists>w. get_webhooks_integration v1 (webhook_name_of tenant_id) = Inr w
                      \<and> wh_url w = keep_api_url))
         \<and> (lookup_forbidden v \<longrightarrow>
               take 3 calls2 = [GetWebhook (webhook_name_of tenant_id),
                                CreateWebhook (webhook_name_of tenant_id),
                                UpdateWebhook (webhook_name_of tenant_id)])"
proof (cases "lookup_forbidden v")
  case False
  from setup_webhook_permitted [OF False first]
  obtain v2 calls2 w
    where "setup_webhook tenant_id keep_api_url api_key setup_alerts v1 = (Inr (), v2, calls2)"
      and "webhooks v2 = webhooks v1"
      and "\<forall>n. UpdateWebhook n \<notin> set calls2 \<and> CreateWebhook n \<notin> set calls2"
      and "get_webhooks_integration v1 (webhook_name_of tenant_id) = Inr w"
      and "wh_url w = keep_api_url"
    by (elim exE conjE)
  with False
  have "setup_webhook tenant_id keep_api_url api_key setup_alerts v1 = (Inr (), v2, calls2)
         \<and> webhooks v2 = webhooks v1
         \<and> (\<not> lookup_forbidden v \<longrightarrow>
               (\<forall>n. UpdateWebhook n \<notin> set calls2 \<and> CreateWebhook n \<notin> set calls2)
               \<and> (\<exists>w. get_webhooks_integration v1 (webhook_name_of tenant_id) = Inr w
                      \<and> wh_url w = keep_api_url))
         \<and> (lookup_forbidden v \<longrightarrow>
               take 3 calls2 = [GetWebhook (webhook_name_of tenant_id),
                                CreateWebhook (webhook_name_of tenant_id),
                                UpdateWebhook (webhook_name_of tenant_id)])"
    by simp
  then show ?thesis by (intro exI)
next
  case True
  note res = setup_webhook_forbidden_result [OF True first]
  from setup_webhook_forbidden_again
         [OF res [THEN conjunct2, THEN conjunct1]
             res [THEN conjunct2, THEN conjunct2, THEN conjunct1]
             res [THEN conjunct2, THEN conjunct2, THEN conjunct2], of setup_alerts]
  obtain v2 calls2
    where "setup_webhook tenant_id keep_api_url api_key setup_alerts v1 = (Inr (), v2, calls2)"
      and "webhooks v2 = webhooks v1"
      and "take 3 calls2 = [GetWebhook (webhook_name_of tenant_id),
                            CreateWebhook (webhook_name_of tenant_id),
                            UpdateWebhook (webhook_name_of tenant_id)]"
    by (elim exE conjE)
  with True
  have "setup_webhook tenant_id keep_api_url api_key setup_alerts v1 = (Inr (), v2, calls2)
         \<and> webhooks v2 = webhooks v1
         \<and> (\<not> lookup_forbidden v \<longrightarrow>
               (\<forall>n. UpdateWebhook n \<notin> set calls2 \<and> CreateWebhook n \<notin> set calls2)
               \<and> (\<exists>w. get_webhooks_integration v1 (webhook_name_of tenant_id) = Inr w
                      \<and> wh_url w = keep_api_url))
         \<and> (lookup_forbidden v \<longrightarrow>
               take 3 calls2 = [GetWebhook (webhook_name_of tenant_id),
                                CreateWebhook (webhook_name_of tenant_id),
                                UpdateWebhook (webhook_name_of tenant_id)])"
    by simp
  then show ?thesis by (intro exI)
qed

text \<open>
  On an account without any webhook the first call creates the registration and patches
  the monitor; the second call only looks the webhook up and lists the monitors.
\<close>

theorem setup_webhook_second_call_witness:
  "\<not> lookup_forbidden example_vendor
   \<and> setup_webhook ''t1'' ''https://keep.example.com/alerts/event/datadog'' ''secret'' True
         example_vendor
       = (Inr (), provisioned_vendor,
          [GetWebhook ''keep-datadog-webhook-integration-t1'',
           CreateWebhook ''keep-datadog-webhook-integration-t1'',
           ListMonitors, UpdateMonitor 7])
   \<and> setup_webhook ''t1'' ''https://keep.example.com/alerts/event/datadog'' ''secret'' True
         provisioned_vendor
       = (Inr (), provisioned_vendor,
          [GetWebhook ''keep-datadog-webhook-integration-t1'', ListMonitors])
   \<and> length (webhooks provisioned_vendor) = 1
   \<and> (\<exists>v2 calls2.
         setup_webhook ''t1'' ''https://keep.example.com/alerts/event/datadog'' ''secret'' True
           provisioned_vendor = (Inr (), v2, calls2)
       \<and> webhooks v2 = webhooks provisioned_vendor
       \<and> (\<forall>n. UpdateWebhook n \<notin> set calls2 \<and> CreateWebhook n \<notin> set calls2))"
proof -
  have nf: "\<not> lookup_forbidden example_vendor"
    by (simp add: example_vendor_def)
  have first: "setup_webhook ''t1'' ''https://keep.example.com/alerts/event/datadog'' ''secret''
                 True example_vendor
       = (Inr (), provisioned_vendor,
          [GetWebhook ''keep-datadog-webhook-integration-t1'',
           CreateWebhook ''keep-datadog-webhook-integration-t1'',
           ListMonitors, UpdateMonitor 7])"
    by code_simp
  have second: "setup_webhook ''t1'' ''https://keep.example.com/alerts/event/datadog'' ''secret''
                 True provisioned_vendor
       = (Inr (), provisioned_vendor,
          [GetWebhook ''keep-datadog-webhook-integration-t1'', ListMonitors])"
    by code_simp
  have one: "length (webhooks provisioned_vendor) = 1"
    by code_simp
  from setup_webhook_second_call [OF first]
  obtain v2 calls2
    where s: "setup_webhook ''t1'' ''https://keep.example.com/alerts/event/datadog'' ''secret''
                True provisioned_vendor = (Inr (), v2, calls2)"
      and w: "webhooks v2 = webhooks provisioned_vendor"
      and p: "\<not> lookup_forbidden example_vendor \<longrightarrow>
               (\<forall>n. UpdateWebhook n \<notin> set calls2 \<and> CreateWebhook n \<notin> set calls2)
               \<and> (\<exists>w. get_webhooks_integration provisioned_vendor (webhook_name_of ''t1'')
                          = Inr w
                      \<and> wh_url w = ''https://keep.example.com/alerts/event/datadog'')"
    by (elim exE conjE)
  note c = p [rule_format, OF nf, THEN conjunct1]
  from s w c
  have "setup_webhook ''t1'' ''https://keep.example.com/alerts/event/datadog'' ''secret'' True
           provisioned_vendor = (Inr (), v2, calls2)
       \<and> webhooks v2 = webhooks provisioned_vendor
       \<and> (\<forall>n. UpdateWebhook n \<notin> set calls2 \<and> CreateWebhook n \<notin> set calls2)"
    by (intro conjI)
  then have e: "\<exists>v2 calls2.
         setup_webhook ''t1'' ''https://keep.example.com/alerts/event/datadog'' ''secret'' True
           provisioned_vendor = (Inr (), v2, calls2)
       \<and> webhooks v2 = webhooks provisioned_vendor
       \<and> (\<forall>n. UpdateWebhook n \<notin> set calls2 \<and> CreateWebhook n \<notin> set calls2)"
    by (intro exI)
  from nf first second one e show ?thesis by (intro conjI)
qed

text \<open>
  Claim C9 as stated fails when the credentials may not look webhooks up: after a first
  call that creates the registration and returns normally, the second call with the same
  arguments sends an update.
\<close>

theorem setup_webhook_forbidden_lookup_counterexample:
  "setup_webhook ''t1'' ''https://keep.example.com/alerts/event/datadog'' ''secret'' True
     (example_vendor\<lparr> lookup_forbidden := True \<rparr>)
   = (Inr (), unreadable_vendor,
      [GetWebhook ''keep-datadog-webhook-integration-t1'',
       CreateWebhook ''keep-datadog-webhook-integration-t1'',
       ListMonitors, UpdateMonitor 7])
   \<and> setup_webhook ''t1'' ''https://keep.example.com/alerts/event/datadog'' ''secret'' True
       unreadable_vendor
   = (Inr (), unreadable_vendor,
      [GetWebhook ''keep-datadog-webhook-integration-t1'',
       CreateWebhook ''keep-datadog-webhook-integration-t1'',
       UpdateWebhook ''keep-datadog-webhook-integration-t1'', ListMonitors])"
  by code_simp

end
